theory Spec2Isabelle
  imports Main "HOL-Library.Word"
begin

unbundle bit_operations_syntax

section \<open>The ASN.1 dumper of doc/examples/asn1.cpp\<close>

text \<open>
  The program reads a BER stream object by object, prints one line per object and descends
  into constructed objects. Its own code is \<open>main\<close>, \<open>decode\<close>, \<open>emit\<close> and
  \<open>type_name\<close>; everything else (the BER scanner, the DER encoder, the value decoders, the
  OID table, the big integers, the hex filter, PEM) belongs to the library and is not part
  of the sources at hand. The library enters the model as a record of functions,
  \<open>library\<close>, so that every statement holds for whatever the library computes.

  Conventions of the embedding:
  \<^item> a \<open>byte\<close> is an 8-bit word, a \<open>u32bit\<close> a 32-bit word, \<open>std::string\<close> a \<open>string\<close>;
  \<^item> an exception is a value (\<open>Inl e\<close>) and carries the text of \<open>what()\<close>;
  \<^item> what the program prints is a list of \<open>printed\<close> items in the order of the calls, each
    tagged with its channel;
  \<^item> loop counters that run up to the size of a container are natural numbers.
\<close>

subsection \<open>Types\<close>

type_synonym byte = "8 word"
type_synonym u32bit = "32 word"
type_synonym ASN1_Tag = "32 word"

record BER_Object =
  type_tag :: ASN1_Tag
  class_tag :: ASN1_Tag
  obj_value :: "byte list"

datatype exception = Exception (what: string)

datatype printed = Stdout string | Stderr string

type_synonym outcome = "printed list \<times> exception option"

subsection \<open>The enumerators of \<open>ASN1_Tag\<close>\<close>

text \<open>
  Modelled from the spec: the enumerators of \<open>ASN1_Tag\<close>. Their declaration
  (botan/asn1_obj.h) is not among the sources; the spec names the four classes, the
  constructed flag and the type tags, and the numbers are the class bits and universal tag
  numbers of BER. \<open>NO_OBJECT\<close> is the tag of the object the scanner returns at the end
  of the stream.
\<close>

definition UNIVERSAL :: ASN1_Tag where "UNIVERSAL = 0x00"
definition APPLICATION :: ASN1_Tag where "APPLICATION = 0x40"
definition CONTEXT_SPECIFIC :: ASN1_Tag where "CONTEXT_SPECIFIC = 0x80"
definition PRIVATE :: ASN1_Tag where "PRIVATE = 0xC0"
definition CONSTRUCTED :: ASN1_Tag where "CONSTRUCTED = 0x20"

definition BOOLEAN :: ASN1_Tag where "BOOLEAN = 0x01"
definition INTEGER :: ASN1_Tag where "INTEGER = 0x02"
definition BIT_STRING :: ASN1_Tag where "BIT_STRING = 0x03"
definition OCTET_STRING :: ASN1_Tag where "OCTET_STRING = 0x04"
definition NULL_TAG :: ASN1_Tag where "NULL_TAG = 0x05"
definition OBJECT_ID :: ASN1_Tag where "OBJECT_ID = 0x06"
definition SEQUENCE :: ASN1_Tag where "SEQUENCE = 0x10"
definition SET :: ASN1_Tag where "SET = 0x11"
definition UTF8_STRING :: ASN1_Tag where "UTF8_STRING = 0x0C"
definition NUMERIC_STRING :: ASN1_Tag where "NUMERIC_STRING = 0x12"
definition PRINTABLE_STRING :: ASN1_Tag where "PRINTABLE_STRING = 0x13"
definition T61_STRING :: ASN1_Tag where "T61_STRING = 0x14"
definition IA5_STRING :: ASN1_Tag where "IA5_STRING = 0x16"
definition VISIBLE_STRING :: ASN1_Tag where "VISIBLE_STRING = 0x1A"
definition BMP_STRING :: ASN1_Tag where "BMP_STRING = 0x1E"
definition UTC_TIME :: ASN1_Tag where "UTC_TIME = 0x17"
definition GENERALIZED_TIME :: ASN1_Tag where "GENERALIZED_TIME = 0x18"
definition NO_OBJECT :: ASN1_Tag where "NO_OBJECT = 0xFF00"

definition INITIAL_LEVEL :: u32bit where "INITIAL_LEVEL = 0"

subsection \<open>What \<open>printf\<close> writes\<close>

text \<open>
  The conversions of the C library that the program uses: \<open>%d\<close> with a minimum width
  (right-justified, padded with blanks), \<open>%02X\<close> (upper-case hexadecimal, at least two
  digits, padded with zeros) and \<open>%s\<close>. A \<open>u32bit\<close> handed to \<open>%d\<close> is read as a
  signed 32-bit value. \<open>%s\<close> prints a C string: of a \<open>std::string\<close> it prints
  \<open>c_str()\<close>, the characters in front of the first NUL character, while \<open>length()\<close>
  and the comparisons of \<open>std::string\<close> see the whole string.
\<close>

definition c_str :: "string \<Rightarrow> string" where
  "c_str s = takeWhile (\<lambda>c. c \<noteq> CHR 0x00) s"

fun dec_digits :: "nat \<Rightarrow> string" where
  "dec_digits n =
     (if n < 10 then [''0123456789'' ! n]
      else dec_digits (n div 10) @ [''0123456789'' ! (n mod 10)])"

fun hex_digits :: "nat \<Rightarrow> string" where
  "hex_digits n =
     (if n < 16 then [''0123456789ABCDEF'' ! n]
      else hex_digits (n div 16) @ [''0123456789ABCDEF'' ! (n mod 16)])"

definition show_int :: "int \<Rightarrow> string" where
  "show_int i = (if i < 0 then CHR ''-'' # dec_digits (nat (- i)) else dec_digits (nat i))"

definition printf_d :: "nat \<Rightarrow> int \<Rightarrow> string" where
  "printf_d width i = replicate (width - length (show_int i)) CHR '' '' @ show_int i"

definition printf_02X :: "nat \<Rightarrow> string" where
  "printf_02X n = replicate (2 - length (hex_digits n)) CHR ''0'' @ hex_digits n"

definition newline :: string where
  "newline = [CHR 0x0A]"

subsection \<open>\<open>emit\<close> (lines 261 to 287)\<close>

text \<open>
  \<open>written\<close> adds up what the \<open>printf\<close> calls return. The loop
  \<open>while(written < 50) written += printf("  ")\<close> is \<open>pad_loop\<close>; it ends because
  \<open>written\<close> grows by two in each round.
\<close>

function pad_loop :: "int \<Rightarrow> string" where
  "pad_loop written = (if written < 50 then ''  '' @ pad_loop (written + 2) else '''')"
  by pat_completeness auto
termination
  by (relation "measure (\<lambda>written. nat (50 - written))") auto

definition emit_head :: "string \<Rightarrow> u32bit \<Rightarrow> u32bit \<Rightarrow> string" where
  "emit_head type level len =
     ''  d='' @ printf_d 2 (sint level) @ '', l='' @ printf_d 4 (sint len) @ '': ''
     @ replicate (unat (level - INITIAL_LEVEL)) CHR '' ''
     @ c_str type @ ''   ''"

definition emit :: "string \<Rightarrow> u32bit \<Rightarrow> u32bit \<Rightarrow> string \<Rightarrow> string" where
  "emit type level len val =
     (let LIMIT = 128;
          BIN_LIMIT = 64;
          written = int (length (emit_head type level len));
          should_skip = False;
          should_skip = (if length val > LIMIT then True else should_skip);
          should_skip = (if (type = ''OCTET STRING'' \<or> type = ''BIT STRING'') \<and>
                            length val > BIN_LIMIT
                         then True else should_skip)
      in if val \<noteq> '''' \<and> \<not> should_skip
         then emit_head type level len
              @ (if written mod 2 = 0 then '' '' else '''')
              @ pad_loop written
              @ '':'' @ c_str val @ newline
         else emit_head type level len @ newline)"

subsection \<open>\<open>type_name\<close> (lines 289 to 310)\<close>

definition type_name :: "ASN1_Tag \<Rightarrow> string" where
  "type_name type =
     (if type = PRINTABLE_STRING then ''PRINTABLE STRING''
      else if type = NUMERIC_STRING then ''NUMERIC STRING''
      else if type = IA5_STRING then ''IA5 STRING''
      else if type = T61_STRING then ''T61 STRING''
      else if type = UTF8_STRING then ''UTF8 STRING''
      else if type = VISIBLE_STRING then ''VISIBLE STRING''
      else if type = BMP_STRING then ''BMP STRING''
      else if type = UTC_TIME then ''UTC TIME''
      else if type = GENERALIZED_TIME then ''GENERALIZED TIME''
      else if type = OCTET_STRING then ''OCTET STRING''
      else if type = BIT_STRING then ''BIT STRING''
      else if type = INTEGER then ''INTEGER''
      else if type = NULL_TAG then ''NULL''
      else if type = OBJECT_ID then ''OBJECT''
      else if type = BOOLEAN then ''BOOLEAN''
      else ''(UNKNOWN)'')"

subsection \<open>The BIT STRING branch (lines 207 to 229)\<close>

text \<open>
  \<open>bit_set_of\<close> is the pair of loops that fills \<open>bit_set\<close>: \<open>j\<close> runs over the bytes and
  reads \<open>bits[bits.size()-j-1]\<close>, \<open>k\<close> runs from 0 to 7 and reads bit \<open>7-k\<close>.
  \<open>bit_str_of\<close> is the loop that builds \<open>bit_str\<close>: it reads \<open>bit_set\<close> from its last
  entry to its first and skips a zero while \<open>bit_str\<close> is still empty.
\<close>

definition bit_set_of :: "byte list \<Rightarrow> bool list" where
  "bit_set_of bits =
     fold (\<lambda>j bit_set.
             fold (\<lambda>k bit_set.
                     bit_set @ [(drop_bit (7 - k) (bits ! (length bits - j - 1)) AND 1) \<noteq> 0])
                  [0..<8] bit_set)
          [0..<length bits] []"

definition bit_str_of :: "bool list \<Rightarrow> string" where
  "bit_str_of bit_set =
     fold (\<lambda>j bit_str.
             let the_bit = bit_set ! (length bit_set - j - 1) in
             if \<not> the_bit \<and> length bit_str = 0 then bit_str
             else bit_str @ (if the_bit then ''1'' else ''0''))
          [0..<length bit_set] []"

definition BIT_STRING_display :: "byte list \<Rightarrow> string" where
  "BIT_STRING_display bits = bit_str_of (bit_set_of bits)"

text \<open>
  The same display in the words of the specification: the bit list \<open>L\<close> takes the bytes
  from the last to the first and, in each byte, bit 7 down to bit 0; the display reads
  \<open>L\<close> from its last index back to index 0 and drops the zeros in front of the first one.
\<close>

definition spec_bit_list :: "byte list \<Rightarrow> bool list" where
  "spec_bit_list B = concat (map (\<lambda>b. map (\<lambda>i. bit b i) (rev [0..<8])) (rev B))"

definition spec_bit_display :: "byte list \<Rightarrow> string" where
  "spec_bit_display B =
     dropWhile (\<lambda>c. c = CHR ''0'')
       (map (\<lambda>x. if x then CHR ''1'' else CHR ''0'') (rev (spec_bit_list B)))"

subsection \<open>The library\<close>

text \<open>
  The library functions that \<open>main\<close> and \<open>decode\<close> call, as parameters. A
  \<open>BER_Decoder\<close> over a buffer is the list of the bytes it has not read yet.
  \<^item> \<open>get_next_object\<close> is \<open>BER_Decoder::get_next_object\<close>: the next object and the
    decoder behind it, or an exception.
  \<^item> \<open>add_object\<close> is \<open>DER_Encoder::add_object\<close> followed by \<open>get_contents\<close>.
  \<^item> The \<open>decode_\<close> fields are the overloads of \<open>BER_Decoder::decode\<close>, applied to
    the decoder \<open>data\<close> over the re-encoded object; \<open>decode_ASN1_String\<close> gives
    \<open>str.iso_8859()\<close> and \<open>decode_X509_Time\<close> gives \<open>time.readable_string()\<close>.
  \<^item> \<open>OIDS_registry\<close> is the table behind \<open>OIDS::lookup\<close>.
  \<^item> \<open>BigInt_encode\<close> is \<open>BigInt::encode\<close>, \<open>Hex_Encoder\<close> what a pipe with that
    filter delivers, \<open>Charset_transcode\<close> the transcoding from Latin-1 to UTF-8.
  \<^item> \<open>DataSource_Stream\<close> opens a file and gives its bytes; \<open>PEM_matches\<close> and
    \<open>PEM_decode\<close> are the functions of \<open>PEM_Code\<close>.
\<close>

type_synonym OID = "nat list"

datatype Base = Decimal | Hexadecimal

record library =
  get_next_object :: "byte list \<Rightarrow> exception + BER_Object \<times> byte list"
  add_object :: "ASN1_Tag \<Rightarrow> ASN1_Tag \<Rightarrow> byte list \<Rightarrow> byte list"
  decode_OID :: "byte list \<Rightarrow> exception + OID"
  OIDS_registry :: "OID \<rightharpoonup> string"
  decode_BigInt :: "byte list \<Rightarrow> exception + int"
  BigInt_encode :: "int \<Rightarrow> Base \<Rightarrow> byte list"
  decode_bool :: "byte list \<Rightarrow> exception + bool"
  decode_bytes :: "byte list \<Rightarrow> ASN1_Tag \<Rightarrow> exception + byte list"
  Hex_Encoder :: "byte list \<Rightarrow> string"
  decode_ASN1_String :: "byte list \<Rightarrow> exception + string"
  Charset_transcode :: "string \<Rightarrow> exception + string"
  decode_X509_Time :: "byte list \<Rightarrow> exception + string"
  DataSource_Stream :: "string \<Rightarrow> exception + byte list"
  PEM_matches :: "byte list \<Rightarrow> bool"
  PEM_decode :: "byte list \<Rightarrow> exception + byte list"

text \<open>
  Modelled from the spec: \<open>to_string\<close>, \<open>OID::as_string\<close>, \<open>OIDS::lookup\<close> and
  \<open>BigInt::bits\<close>, library functions whose code is not among the sources.
  \<open>to_string\<close> writes a number in decimal; the canonical form of an object identifier is
  its components in decimal joined by dots; a lookup gives the name of the registry or,
  on a miss, falls back to the dotted form; \<open>bits\<close> is the number of bits of the
  magnitude.
\<close>

definition to_string :: "ASN1_Tag \<Rightarrow> string" where
  "to_string n = dec_digits (unat n)"

fun OID_as_string :: "OID \<Rightarrow> string" where
  "OID_as_string [] = ''''"
| "OID_as_string [n] = dec_digits n"
| "OID_as_string (n # ns) = dec_digits n @ ''.'' @ OID_as_string ns"

definition OIDS_lookup :: "(OID \<rightharpoonup> string) \<Rightarrow> OID \<Rightarrow> string" where
  "OIDS_lookup registry oid =
     (case registry oid of Some name \<Rightarrow> name | None \<Rightarrow> OID_as_string oid)"

fun bit_length :: "nat \<Rightarrow> nat" where
  "bit_length n = (if n = 0 then 0 else Suc (bit_length (n div 2)))"

definition BigInt_bits :: "int \<Rightarrow> nat" where
  "BigInt_bits n = bit_length (nat \<bar>n\<bar>)"

text \<open>
  \<open>isgraph\<close> and \<open>isspace\<close> of the C library in the "C" locale, which the program
  never changes. A pipe without a filter hands its input through; \<open>read_all_as_string\<close>
  and the cast \<open>(char)\<close> turn a byte into the character with that code.
\<close>

definition isgraph :: "byte \<Rightarrow> bool" where
  "isgraph c = (0x21 \<le> c \<and> c \<le> 0x7E)"

definition isspace :: "byte \<Rightarrow> bool" where
  "isspace c = (c = 0x20 \<or> (0x09 \<le> c \<and> c \<le> 0x0D))"

definition byte_to_char :: "byte \<Rightarrow> char" where
  "byte_to_char b = char_of (unat b)"

definition Pipe_read_all :: "(byte list \<Rightarrow> string) option \<Rightarrow> byte list \<Rightarrow> string" where
  "Pipe_read_all filter_opt msg =
     (case filter_opt of None \<Rightarrow> map byte_to_char msg | Some f \<Rightarrow> f msg)"

subsection \<open>The branches of \<open>decode\<close> for primitive objects\<close>

text \<open>
  \<open>text_or_hex\<close> is the loop that sets \<open>not_text\<close> and the pipe that follows it (lines
  141 to 148 and 197 to 204); \<open>OID_display\<close> is lines 157 to 159; \<open>INTEGER_display\<close> is
  lines 168 to 178.
\<close>

definition not_text_of :: "byte list \<Rightarrow> bool" where
  "not_text_of bits =
     fold (\<lambda>j not_text. if \<not> isgraph (bits ! j) \<and> \<not> isspace (bits ! j) then True else not_text)
          [0..<length bits] False"

definition text_or_hex :: "(byte list \<Rightarrow> string) \<Rightarrow> byte list \<Rightarrow> string" where
  "text_or_hex hex_encoder bits =
     Pipe_read_all (if not_text_of bits then Some hex_encoder else None) bits"

definition OID_display :: "(OID \<rightharpoonup> string) \<Rightarrow> OID \<Rightarrow> string" where
  "OID_display registry oid =
     (let out = OIDS_lookup registry oid
      in if out \<noteq> OID_as_string oid then out @ '' ['' @ OID_as_string oid @ '']'' else out)"

definition INTEGER_display :: "(int \<Rightarrow> Base \<Rightarrow> byte list) \<Rightarrow> int \<Rightarrow> string" where
  "INTEGER_display encode number =
     (let rep = (if BigInt_bits number \<le> 16 then encode number Decimal
                 else encode number Hexadecimal)
      in fold (\<lambda>j str. str @ [byte_to_char (rep ! j)]) [0..<length rep] [])"

definition UTF8_TERMINAL :: bool where
  "UTF8_TERMINAL = True"

text \<open>
  \<open>decode_leaf\<close> is the chain of lines 138 to 255, for an object whose class tag has no
  \<open>CONSTRUCTED\<close> bit: what the branch prints, or the exception a value decoder throws.
  \<open>bits\<close> is the encoder's contents for the object (lines 96 to 98) and \<open>data\<close> the decoder
  over it; \<open>ty_tag\<close> and \<open>cl_tag\<close> are the constants \<open>type_tag\<close> and \<open>class_tag\<close> of
  lines 90 and 91.
\<close>

definition decode_leaf ::
    "library \<Rightarrow> ASN1_Tag \<Rightarrow> ASN1_Tag \<Rightarrow> u32bit \<Rightarrow> byte list \<Rightarrow> u32bit \<Rightarrow> exception + printed" where
  "decode_leaf lib ty_tag cl_tag len bits level =
     (let data = bits in
      if cl_tag = APPLICATION \<or> cl_tag = CONTEXT_SPECIFIC \<or> cl_tag = PRIVATE then
        Inr (Stdout (emit (''['' @ to_string ty_tag @ '']'') level len
                          (text_or_hex (Hex_Encoder lib) bits)))
      else if ty_tag = OBJECT_ID then
        (case decode_OID lib data of
           Inl e \<Rightarrow> Inl e
         | Inr oid \<Rightarrow>
             Inr (Stdout (emit (type_name ty_tag) level len
                               (OID_display (OIDS_registry lib) oid))))
      else if ty_tag = INTEGER then
        (case decode_BigInt lib data of
           Inl e \<Rightarrow> Inl e
         | Inr number \<Rightarrow>
             Inr (Stdout (emit (type_name ty_tag) level len
                               (INTEGER_display (BigInt_encode lib) number))))
      else if ty_tag = BOOLEAN then
        (case decode_bool lib data of
           Inl e \<Rightarrow> Inl e
         | Inr boolean \<Rightarrow>
             Inr (Stdout (emit (type_name ty_tag) level len
                               (if boolean then ''true'' else ''false''))))
      else if ty_tag = NULL_TAG then
        Inr (Stdout (emit (type_name ty_tag) level len ''''))
      else if ty_tag = OCTET_STRING then
        (case decode_bytes lib data ty_tag of
           Inl e \<Rightarrow> Inl e
         | Inr bits \<Rightarrow>
             Inr (Stdout (emit (type_name ty_tag) level len
                               (text_or_hex (Hex_Encoder lib) bits))))
      else if ty_tag = BIT_STRING then
        (case decode_bytes lib data ty_tag of
           Inl e \<Rightarrow> Inl e
         | Inr bits \<Rightarrow>
             Inr (Stdout (emit (type_name ty_tag) level len (BIT_STRING_display bits))))
      else if ty_tag = PRINTABLE_STRING \<or> ty_tag = NUMERIC_STRING \<or>
              ty_tag = IA5_STRING \<or> ty_tag = T61_STRING \<or>
              ty_tag = VISIBLE_STRING \<or> ty_tag = UTF8_STRING \<or>
              ty_tag = BMP_STRING then
        (case decode_ASN1_String lib data of
           Inl e \<Rightarrow> Inl e
         | Inr str \<Rightarrow>
             if UTF8_TERMINAL then
               (case Charset_transcode lib str of
                  Inl e \<Rightarrow> Inl e
                | Inr utf8 \<Rightarrow> Inr (Stdout (emit (type_name ty_tag) level len utf8)))
             else Inr (Stdout (emit (type_name ty_tag) level len str)))
      else if ty_tag = UTC_TIME \<or> ty_tag = GENERALIZED_TIME then
        (case decode_X509_Time lib data of
           Inl e \<Rightarrow> Inl e
         | Inr readable \<Rightarrow> Inr (Stdout (emit (type_name ty_tag) level len readable)))
      else
        Inr (Stderr (''Unknown tag: class='' @ printf_02X (unat cl_tag)
                     @ '', type='' @ printf_02X (unat ty_tag) @ newline)))"

text \<open>
  The label of a constructed object that is neither a SEQUENCE nor a SET (lines 117 to 132).
\<close>

definition cons_name :: "ASN1_Tag \<Rightarrow> ASN1_Tag \<Rightarrow> string" where
  "cons_name ty_tag cl_tag =
     (if cl_tag AND APPLICATION \<noteq> 0 \<or> cl_tag AND CONTEXT_SPECIFIC \<noteq> 0 \<or>
         cl_tag AND PRIVATE \<noteq> 0
      then ''cons ['' @ to_string ty_tag @ '']''
           @ (if cl_tag AND APPLICATION \<noteq> 0 then '' appl'' else '''')
           @ (if cl_tag AND CONTEXT_SPECIFIC \<noteq> 0 then '' context'' else '''')
           @ (if cl_tag AND PRIVATE \<noteq> 0 then '' private'' else '''')
      else type_name ty_tag @ '' (cons)'')"

subsection \<open>\<open>decode\<close> (lines 84 to 259)\<close>

text \<open>
  The loop over the objects of one decoder and the recursion into constructed objects.
  The result is what was printed and, when an exception ended the call, that exception;
  \<open>None\<close> is a call that does not return. Nothing in \<open>decode\<close> catches an exception:
  one thrown by the scanner, by a value decoder or by a nested call ends the call, and what
  was printed before stays printed.
\<close>

partial_function (option) decode :: "library \<Rightarrow> byte list \<Rightarrow> u32bit \<Rightarrow> outcome option" where
  "decode lib decoder level =
     (case get_next_object lib decoder of
        Inl e \<Rightarrow> Some ([], Some e)
      | Inr (obj, decoder') \<Rightarrow>
          if type_tag obj = NO_OBJECT then Some ([], None)
          else
            let len = (of_nat (length (obj_value obj)) :: u32bit);
                bits = add_object lib (type_tag obj) (class_tag obj) (obj_value obj)
            in
            Option.bind
              (if class_tag obj AND CONSTRUCTED \<noteq> 0 then
                 (let cons_info = obj_value obj in
                  if type_tag obj = SEQUENCE then
                    Option.bind (decode lib cons_info (level + 1))
                      (\<lambda>(out, exc). Some (Stdout (emit ''SEQUENCE'' level len '''') # out, exc))
                  else if type_tag obj = SET then
                    Option.bind (decode lib cons_info (level + 1))
                      (\<lambda>(out, exc). Some (Stdout (emit ''SET'' level len '''') # out, exc))
                  else
                    Option.bind (decode lib cons_info (level + 1))
                      (\<lambda>(out, exc).
                         Some (Stdout (emit (cons_name (type_tag obj) (class_tag obj)) level len '''')
                               # out, exc)))
               else
                 (case decode_leaf lib (type_tag obj) (class_tag obj) len bits level of
                    Inl e \<Rightarrow> Some ([], Some e)
                  | Inr line \<Rightarrow> Some ([line], None)))
              (\<lambda>(out, exc).
                 case exc of
                   Some e \<Rightarrow> Some (out, Some e)
                 | None \<Rightarrow>
                     Option.bind (decode lib decoder' level)
                       (\<lambda>(out', exc'). Some (out @ out', exc'))))"

declare decode.simps [code]

subsection \<open>\<open>main\<close> (lines 52 to 82)\<close>

text \<open>
  \<open>argv0\<close> is \<open>argv[0]\<close> and \<open>args\<close> the arguments after it, so that \<open>argc\<close> is
  \<open>1 + length args\<close>. The result is the exit code and what was printed.
\<close>

definition main_finish :: "outcome \<Rightarrow> int \<times> printed list" where
  "main_finish r =
     (case r of
        (out, None) \<Rightarrow> (0, out)
      | (out, Some e) \<Rightarrow> (1, out @ [Stdout (what e @ newline)]))"

definition main :: "library \<Rightarrow> string \<Rightarrow> string list \<Rightarrow> (int \<times> printed list) option" where
  "main lib argv0 args =
     (if 1 + length args \<noteq> 2 then
        Some (1, [Stdout (''Usage: '' @ argv0 @ '' <file>'' @ newline)])
      else
        case DataSource_Stream lib (args ! 0) of
          Inl e \<Rightarrow> Some (main_finish ([], Some e))
        | Inr inp \<Rightarrow>
            if \<not> PEM_matches lib inp then
              Option.bind (decode lib inp INITIAL_LEVEL) (\<lambda>r. Some (main_finish r))
            else
              (case PEM_decode lib inp of
                 Inl e \<Rightarrow> Some (main_finish ([], Some e))
               | Inr ber \<Rightarrow>
                   Option.bind (decode lib ber INITIAL_LEVEL) (\<lambda>r. Some (main_finish r))))"

subsection \<open>An instance of the library\<close>

text \<open>
  A small library to run the program on concrete streams: a scanner and an encoder for
  objects with a one-byte identifier and a one-byte length, big-endian two's-complement
  integers, upper-case hexadecimal, a registry with one entry, a file system with five
  files and, in place of the PEM armour, five dashes in front of the payload. Its decoder
  for BIT STRINGs takes the first value byte, the number of unused bits, off the buffer.
  No definition above depends on it.
\<close>

definition sample_scan :: "byte list \<Rightarrow> exception + BER_Object \<times> byte list" where
  "sample_scan s =
     (case s of
        [] \<Rightarrow> Inr (\<lparr>type_tag = NO_OBJECT, class_tag = NO_OBJECT, obj_value = []\<rparr>, [])
      | [t] \<Rightarrow> Inl (Exception ''BER: Length field is missing'')
      | t # l # rest \<Rightarrow>
          if unat l < 128 \<and> unat l \<le> length rest
          then Inr (\<lparr>type_tag = ucast (t AND 0x1F), class_tag = ucast (t AND 0xE0),
                     obj_value = take (unat l) rest\<rparr>, drop (unat l) rest)
          else Inl (Exception ''BER: Value truncated''))"

definition sample_add_object :: "ASN1_Tag \<Rightarrow> ASN1_Tag \<Rightarrow> byte list \<Rightarrow> byte list" where
  "sample_add_object ty_tag cl_tag rep = ucast (ty_tag OR cl_tag) # of_nat (length rep) # rep"

definition sample_value :: "byte list \<Rightarrow> exception + byte list" where
  "sample_value data =
     (case sample_scan data of Inl e \<Rightarrow> Inl e | Inr (obj, rest) \<Rightarrow> Inr (obj_value obj))"

definition sample_BigInt :: "byte list \<Rightarrow> int" where
  "sample_BigInt rep =
     (let magnitude = foldl (\<lambda>acc b. acc * 256 + uint b) 0 rep
      in if rep \<noteq> [] \<and> unat (hd rep) \<ge> 128 then magnitude - 2 ^ (8 * length rep) else magnitude)"

definition sample_library :: library where
  "sample_library =
     \<lparr>get_next_object = sample_scan,
      add_object = sample_add_object,
      decode_OID = (\<lambda>data. case sample_value data of
                       Inl e \<Rightarrow> Inl e
                     | Inr [] \<Rightarrow> Inl (Exception ''OID encoding is too short'')
                     | Inr (b # rest) \<Rightarrow> Inr (unat b div 40 # unat b mod 40 # map unat rest)),
      OIDS_registry = [[1, 2, 840, 113549, 1, 1, 1] \<mapsto> ''rsaEncryption''],
      decode_BigInt = (\<lambda>data. case sample_value data of
                          Inl e \<Rightarrow> Inl e | Inr rep \<Rightarrow> Inr (sample_BigInt rep)),
      BigInt_encode = (\<lambda>n base. map (\<lambda>c. of_nat (of_char c))
                          (case base of Decimal \<Rightarrow> dec_digits (nat \<bar>n\<bar>)
                                      | Hexadecimal \<Rightarrow> hex_digits (nat \<bar>n\<bar>))),
      decode_bool = (\<lambda>data. case sample_value data of
                        Inl e \<Rightarrow> Inl e
                      | Inr [b] \<Rightarrow> Inr (b \<noteq> 0)
                      | Inr _ \<Rightarrow> Inl (Exception ''BER: Invalid BOOLEAN'')),
      decode_bytes = (\<lambda>data real_type. case sample_value data of
                        Inl e \<Rightarrow> Inl e
                      | Inr rep \<Rightarrow>
                          if real_type = OCTET_STRING then Inr rep
                          else if rep \<noteq> [] \<and> unat (hd rep) < 8 then Inr (tl rep)
                          else Inl (Exception ''Bad number of unused bits in BIT STRING'')),
      Hex_Encoder = (\<lambda>msg. concat (map (\<lambda>b. printf_02X (unat b)) msg)),
      decode_ASN1_String = (\<lambda>data. case sample_value data of
                               Inl e \<Rightarrow> Inl e | Inr rep \<Rightarrow> Inr (map byte_to_char rep)),
      Charset_transcode = (\<lambda>str. Inr str),
      decode_X509_Time = (\<lambda>data. case sample_value data of
                             Inl e \<Rightarrow> Inl e | Inr rep \<Rightarrow> Inr (map byte_to_char rep)),
      DataSource_Stream = (\<lambda>path.
          if path = ''seq.der'' then Inr [0x30, 0x06, 0x02, 0x01, 0x05, 0x02, 0x01, 0x07]
          else if path = ''empty.der'' then Inr []
          else if path = ''short.der'' then Inr [0x30, 0x03, 0x02, 0x05, 0x01]
          else if path = ''armoured.pem''
            then Inr [0x2D, 0x2D, 0x2D, 0x2D, 0x2D, 0x02, 0x01, 0x07]
          else if path = ''broken.pem'' then Inr [0x2D, 0x2D, 0x2D, 0x2D, 0x2D]
          else Inl (Exception ''DataSource: Failure opening file'')),
      PEM_matches = (\<lambda>inp. take 5 inp = [0x2D, 0x2D, 0x2D, 0x2D, 0x2D]),
      PEM_decode = (\<lambda>inp. if length inp > 5 then Inr (drop 5 inp)
                          else Inl (Exception ''PEM: No PEM header found''))\<rparr>"

text \<open>
  The contents of a SEQUENCE of primitive INTEGER objects: scanning \<open>s\<close> gives the
  objects of the list one after the other and then the end of the stream, each object is a
  universal, primitive INTEGER, and the library decodes it to the number beside it.
\<close>

fun INTEGER_children :: "library \<Rightarrow> byte list \<Rightarrow> (BER_Object \<times> int) list \<Rightarrow> bool" where
  "INTEGER_children lib s [] =
     (case get_next_object lib s of
        Inl e \<Rightarrow> False
      | Inr (obj, s') \<Rightarrow> type_tag obj = NO_OBJECT)"
| "INTEGER_children lib s ((child, number) # rest) =
     (case get_next_object lib s of
        Inl e \<Rightarrow> False
      | Inr (obj, s') \<Rightarrow>
          obj = child \<and> type_tag child = INTEGER \<and> class_tag child = UNIVERSAL \<and>
          decode_BigInt lib (add_object lib (type_tag child) (class_tag child) (obj_value child))
            = Inr number \<and>
          INTEGER_children lib s' rest)"

section \<open>Preliminaries\<close>

lemmas tag_defs =
  UNIVERSAL_def APPLICATION_def CONTEXT_SPECIFIC_def PRIVATE_def CONSTRUCTED_def
  BOOLEAN_def INTEGER_def BIT_STRING_def OCTET_STRING_def NULL_TAG_def OBJECT_ID_def
  SEQUENCE_def SET_def UTF8_STRING_def NUMERIC_STRING_def PRINTABLE_STRING_def
  T61_STRING_def IA5_STRING_def VISIBLE_STRING_def BMP_STRING_def UTC_TIME_def
  GENERALIZED_TIME_def NO_OBJECT_def

declare dec_digits.simps [simp del]
declare hex_digits.simps [simp del]
declare bit_length.simps [simp del]
declare pad_loop.simps [simp del]
declare OID_as_string.simps [simp del]

section \<open>The BIT STRING display\<close>

lemma fold_snoc_map: "fold (\<lambda>k acc. acc @ [f k]) xs acc = acc @ map f xs"
  by (induction xs arbitrary: acc) simp_all

lemma fold_snoc_concat: "fold (\<lambda>j acc. acc @ g j) xs acc = acc @ concat (map g xs)"
  by (induction xs arbitrary: acc) simp_all

lemma rev_as_index_map: "map (\<lambda>j. xs ! (length xs - j - 1)) [0..<length xs] = rev xs"
  by (rule nth_equalityI) (simp_all add: rev_nth)

lemma fold_index: "fold (\<lambda>j. f (xs ! (length xs - j - 1))) [0..<length xs] s = fold f (rev xs) s"
proof -
  have "fold (\<lambda>j. f (xs ! (length xs - j - 1))) [0..<length xs] s
      = fold f (map (\<lambda>j. xs ! (length xs - j - 1)) [0..<length xs]) s"
    by (simp only: fold_map comp_def)
  then show ?thesis by (simp only: rev_as_index_map)
qed

lemma bit_test: "((drop_bit n (b::byte) AND 1) \<noteq> 0) = bit b n"
  by (simp add: bit_iff_odd_drop_bit and_one_eq mod_2_eq_odd)

lemma down_idx: "map (\<lambda>k. f (7 - k)) [0..<8] = map f (rev [0..<8::nat])"
  by (simp add: upt_rec numeral_eq_Suc)

lemma bit_set_of_spec: "bit_set_of bits = spec_bit_list bits"
proof -
  have inner: "\<And>j bit_set.
      fold (\<lambda>k bit_set. bit_set @ [(drop_bit (7 - k) (bits ! (length bits - j - 1)) AND 1) \<noteq> 0])
           [0..<8] bit_set
      = bit_set @ map (\<lambda>i. bit (bits ! (length bits - j - 1)) i) (rev [0..<8])"
    by (simp only: bit_test fold_snoc_map down_idx)
  have "bit_set_of bits =
      concat (map (\<lambda>j. (\<lambda>b. map (\<lambda>i. bit b i) (rev [0..<8])) (bits ! (length bits - j - 1)))
                  [0..<length bits])"
    unfolding bit_set_of_def inner by (simp only: fold_snoc_concat append_Nil)
  also have "\<dots> = concat (map (\<lambda>b. map (\<lambda>i. bit b i) (rev [0..<8]))
                            (map (\<lambda>j. bits ! (length bits - j - 1)) [0..<length bits]))"
    by (simp only: map_map comp_def)
  also have "\<dots> = spec_bit_list bits"
    unfolding rev_as_index_map spec_bit_list_def ..
  finally show ?thesis .
qed

lemma skip_fold:
  "fold (\<lambda>x bit_str. if \<not> x \<and> length bit_str = 0 then bit_str
                      else bit_str @ (if x then ''1'' else ''0'')) xs s =
   (if s = [] then dropWhile (\<lambda>c. c = CHR ''0'') (map (\<lambda>x. if x then CHR ''1'' else CHR ''0'') xs)
    else s @ map (\<lambda>x. if x then CHR ''1'' else CHR ''0'') xs)"
  by (induction xs arbitrary: s) auto

lemma bit_str_of_spec:
  "bit_str_of bit_set =
   dropWhile (\<lambda>c. c = CHR ''0'') (map (\<lambda>x. if x then CHR ''1'' else CHR ''0'') (rev bit_set))"
proof -
  have "bit_str_of bit_set =
      fold (\<lambda>x bit_str. if \<not> x \<and> length bit_str = 0 then bit_str
                         else bit_str @ (if x then ''1'' else ''0'')) (rev bit_set) []"
    unfolding bit_str_of_def Let_def by (rule fold_index)
  also have "\<dots> = dropWhile (\<lambda>c. c = CHR ''0'')
                      (map (\<lambda>x. if x then CHR ''1'' else CHR ''0'') (rev bit_set))"
    by (subst skip_fold) simp
  finally show ?thesis .
qed

lemma display_is_spec: "BIT_STRING_display bits = spec_bit_display bits"
  by (simp only: BIT_STRING_display_def spec_bit_display_def bit_set_of_spec bit_str_of_spec)

lemma all_zero_dropped:
  "\<forall>x\<in>set xs. \<not> x \<Longrightarrow>
   dropWhile (\<lambda>c. c = CHR ''0'') (map (\<lambda>x. if x then CHR ''1'' else CHR ''0'') xs) = []"
  by (induction xs) (auto simp del: dropWhile_eq_Nil_conv)

lemma zero_bits: "\<forall>b\<in>set bits. b = 0 \<Longrightarrow> \<forall>x\<in>set (spec_bit_list bits). \<not> x"
  by (auto simp: spec_bit_list_def)

lemma zero_display: "\<forall>b\<in>set bits. b = 0 \<Longrightarrow> spec_bit_display bits = []"
proof -
  assume "\<forall>b\<in>set bits. b = 0"
  then have "\<forall>x\<in>set (spec_bit_list bits). \<not> x" by (rule zero_bits)
  then have "\<forall>x\<in>set (rev (spec_bit_list bits)). \<not> x" by simp
  then show ?thesis
    unfolding spec_bit_display_def by (rule all_zero_dropped)
qed

lemma length_spec_bit_list: "length (spec_bit_list bits) = 8 * length bits"
  by (induction bits) (simp_all add: spec_bit_list_def)

lemma leaf_BIT_STRING:
  "decode_bytes lib data BIT_STRING = Inr B \<Longrightarrow>
   decode_leaf lib BIT_STRING UNIVERSAL len data level =
     Inr (Stdout (emit ''BIT STRING'' level len (BIT_STRING_display B)))"
  by (simp add: decode_leaf_def type_name_def tag_defs)

text \<open>
  Claim C10. The display string of a BIT STRING consists of the characters \<open>0\<close> and
  \<open>1\<close> only, is at most eight times as long as the byte vector it is made from, and,
  when it is not empty, starts with \<open>1\<close>.
\<close>

theorem BIT_STRING_display_shape:
  "set (BIT_STRING_display bits) \<subseteq> {CHR ''1'', CHR ''0''}
   \<and> length (BIT_STRING_display bits) \<le> 8 * length bits
   \<and> (BIT_STRING_display bits \<noteq> '''' \<longrightarrow> hd (BIT_STRING_display bits) = CHR ''1'')"
proof -
  let ?xs = "map (\<lambda>x. if x then CHR ''1'' else CHR ''0'') (rev (spec_bit_list bits))"
  have e: "BIT_STRING_display bits = dropWhile (\<lambda>c. c = CHR ''0'') ?xs"
    by (simp only: display_is_spec spec_bit_display_def)
  have chars: "set ?xs \<subseteq> {CHR ''1'', CHR ''0''}" by auto
  have "set (dropWhile (\<lambda>c. c = CHR ''0'') ?xs) \<subseteq> set ?xs"
    by (rule subsetI) (rule set_dropWhileD)
  with chars have a: "set (BIT_STRING_display bits) \<subseteq> {CHR ''1'', CHR ''0''}"
    unfolding e by blast
  have "length (dropWhile (\<lambda>c. c = CHR ''0'') ?xs) \<le> length ?xs"
    by (rule length_dropWhile_le)
  then have b: "length (BIT_STRING_display bits) \<le> 8 * length bits"
    unfolding e by (simp add: length_spec_bit_list)
  have c: "hd (BIT_STRING_display bits) = CHR ''1''" if ne: "BIT_STRING_display bits \<noteq> ''''"
  proof -
    from ne have "hd (BIT_STRING_display bits) \<noteq> CHR ''0''"
      unfolding e using hd_dropWhile [of "\<lambda>c. c = CHR ''0''" ?xs] by simp
    moreover from ne a have "hd (BIT_STRING_display bits) \<in> {CHR ''1'', CHR ''0''}"
      using hd_in_set by blast
    ultimately show ?thesis by blast
  qed
  from a b c show ?thesis by blast
qed

theorem BIT_STRING_display_shape_witness:
  "BIT_STRING_display [0xA0] = ''101''
   \<and> BIT_STRING_display [0xA0] \<noteq> ''''
   \<and> hd (BIT_STRING_display [0xA0]) = CHR ''1''
   \<and> length (BIT_STRING_display [0xA0]) \<le> 8 * length [0xA0 :: byte]"
proof -
  have v: "BIT_STRING_display [0xA0] = ''101''" by code_simp
  then have ne: "BIT_STRING_display [0xA0] \<noteq> ''''" by simp
  show ?thesis
    using v ne BIT_STRING_display_shape [of "[0xA0]"] by blast
qed

section \<open>The formatter\<close>








section \<open>Integers\<close>

lemma bit_length_le: "bit_length n \<le> k \<longleftrightarrow> n < 2 ^ k"
proof (induction n arbitrary: k rule: bit_length.induct)
  case (1 n)
  show ?case
  proof (cases "n = 0")
    case True
    then show ?thesis by (subst bit_length.simps) simp
  next
    case False
    show ?thesis
    proof (cases k)
      case 0
      with False show ?thesis by (subst bit_length.simps) simp
    next
      case (Suc k')
      have "bit_length n \<le> Suc k' \<longleftrightarrow> bit_length (n div 2) \<le> k'"
        using False by (subst bit_length.simps) simp
      also have "\<dots> \<longleftrightarrow> n div 2 < 2 ^ k'" using False by (rule 1)
      also have "\<dots> \<longleftrightarrow> n < 2 ^ Suc k'" by auto
      finally show ?thesis using Suc by simp
    qed
  qed
qed

lemma BigInt_bits_le_16: "BigInt_bits number \<le> 16 \<longleftrightarrow> \<bar>number\<bar> < 65536"
proof -
  have "BigInt_bits number \<le> 16 \<longleftrightarrow> nat \<bar>number\<bar> < 2 ^ 16"
    unfolding BigInt_bits_def by (rule bit_length_le)
  also have "\<dots> \<longleftrightarrow> \<bar>number\<bar> < 65536" by auto
  finally show ?thesis .
qed

lemma chars_of_rep: "fold (\<lambda>j str. str @ [byte_to_char (rep ! j)]) [0..<length rep] [] = map byte_to_char rep"
proof -
  have "fold (\<lambda>j str. str @ [byte_to_char (rep ! j)]) [0..<length rep] []
      = map (\<lambda>j. byte_to_char (rep ! j)) [0..<length rep]"
    by (simp only: fold_snoc_map append_Nil)
  also have "\<dots> = map byte_to_char (map (\<lambda>j. rep ! j) [0..<length rep])"
    by (simp only: map_map comp_def)
  also have "\<dots> = map byte_to_char rep" by (simp only: map_nth)
  finally show ?thesis .
qed

lemma INTEGER_display_small:
  assumes "\<bar>number\<bar> < 65536"
  shows "INTEGER_display encode number = map byte_to_char (encode number Decimal)"
proof -
  from assms have "BigInt_bits number \<le> 16" by (simp only: BigInt_bits_le_16)
  then show ?thesis
    unfolding INTEGER_display_def Let_def chars_of_rep by (simp only: if_True)
qed

lemma INTEGER_display_large:
  assumes "65536 \<le> \<bar>number\<bar>"
  shows "INTEGER_display encode number = map byte_to_char (encode number Hexadecimal)"
proof -
  from assms have "\<not> \<bar>number\<bar> < 65536" by simp
  then have "\<not> BigInt_bits number \<le> 16" using BigInt_bits_le_16 [of number] by blast
  then show ?thesis
    unfolding INTEGER_display_def Let_def chars_of_rep by (simp only: if_False)
qed

lemma leaf_INTEGER:
  "decode_BigInt lib data = Inr number \<Longrightarrow>
   decode_leaf lib INTEGER UNIVERSAL len data level =
     Inr (Stdout (emit ''INTEGER'' level len (INTEGER_display (BigInt_encode lib) number)))"
  by (simp add: decode_leaf_def type_name_def tag_defs)

text \<open>
  Claim C3. An INTEGER whose magnitude fits in 16 bits is handed to the library's encoder
  with base \<open>Decimal\<close>, any other with base \<open>Hexadecimal\<close>, and the characters of
  that encoding are the display string of the line labelled \<open>INTEGER\<close>. So 65535 is
  shown in decimal and 65536 in hexadecimal. \<open>number\<close> is the value that the library's
  \<open>decode\<close> delivers for the object.
\<close>

theorem INTEGER_display_threshold:
  "(\<bar>number\<bar> < 2 ^ 16 \<longrightarrow>
      INTEGER_display encode number = map byte_to_char (encode number Decimal))
   \<and> (2 ^ 16 \<le> \<bar>number\<bar> \<longrightarrow>
        INTEGER_display encode number = map byte_to_char (encode number Hexadecimal))
   \<and> INTEGER_display encode 65535 = map byte_to_char (encode 65535 Decimal)
   \<and> INTEGER_display encode 65536 = map byte_to_char (encode 65536 Hexadecimal)
   \<and> (decode_BigInt lib data = Inr number \<longrightarrow>
        decode_leaf lib INTEGER UNIVERSAL len data level =
          Inr (Stdout (emit ''INTEGER'' level len (INTEGER_display (BigInt_encode lib) number))))"
proof -
  have p: "(2::int) ^ 16 = 65536" by simp
  have a: "\<bar>number\<bar> < 2 ^ 16 \<longrightarrow>
      INTEGER_display encode number = map byte_to_char (encode number Decimal)"
    unfolding p using INTEGER_display_small [of number encode] by blast
  have b: "2 ^ 16 \<le> \<bar>number\<bar> \<longrightarrow>
        INTEGER_display encode number = map byte_to_char (encode number Hexadecimal)"
    unfolding p using INTEGER_display_large [of number encode] by blast
  have c: "INTEGER_display encode 65535 = map byte_to_char (encode 65535 Decimal)"
    by (rule INTEGER_display_small) simp
  have d: "INTEGER_display encode 65536 = map byte_to_char (encode 65536 Hexadecimal)"
    by (rule INTEGER_display_large) simp
  from a b c d leaf_INTEGER [of lib data number len level] show ?thesis by blast
qed

lemma sample_decode_65536:
  "decode_BigInt sample_library [0x02, 0x03, 0x01, 0x00, 0x00] = Inr 65536"
  by (simp add: sample_library_def sample_value_def sample_scan_def sample_BigInt_def)

theorem INTEGER_display_threshold_witness:
  "\<bar>- 65535 :: int\<bar> < 2 ^ 16 \<and> (2 :: int) ^ 16 \<le> \<bar>65536\<bar>
   \<and> INTEGER_display (BigInt_encode sample_library) (- 65535)
        = map byte_to_char (BigInt_encode sample_library (- 65535) Decimal)
   \<and> INTEGER_display (BigInt_encode sample_library) 65536
        = map byte_to_char (BigInt_encode sample_library 65536 Hexadecimal)
   \<and> decode_BigInt sample_library [0x02, 0x03, 0x01, 0x00, 0x00] = Inr 65536
   \<and> decode_leaf sample_library INTEGER UNIVERSAL 3 [0x02, 0x03, 0x01, 0x00, 0x00] 0 =
        Inr (Stdout (emit ''INTEGER'' 0 3 (INTEGER_display (BigInt_encode sample_library) 65536)))"
proof -
  have lo: "\<bar>- 65535 :: int\<bar> < 2 ^ 16" by simp
  have hi: "(2 :: int) ^ 16 \<le> \<bar>65536\<bar>" by simp
  show ?thesis
    using lo hi sample_decode_65536
      INTEGER_display_threshold [of "- 65535" "BigInt_encode sample_library" sample_library "[]" 0 0]
      INTEGER_display_threshold [of 65536 "BigInt_encode sample_library" sample_library
        "[0x02, 0x03, 0x01, 0x00, 0x00]" 3 0]
    by blast
qed

section \<open>Object identifiers\<close>

lemma leaf_OBJECT_ID:
  "decode_OID lib data = Inr oid \<Longrightarrow>
   decode_leaf lib OBJECT_ID UNIVERSAL len data level =
     Inr (Stdout (emit ''OBJECT'' level len (OID_display (OIDS_registry lib) oid)))"
  by (simp add: decode_leaf_def type_name_def tag_defs)

lemma rsa_dotted: "OID_as_string [1, 2, 840, 113549, 1, 1, 1] = ''1.2.840.113549.1.1.1''"
  by (simp add: OID_as_string.simps dec_digits.simps)

lemma OID_display_named:
  "registry oid = Some name \<Longrightarrow> name \<noteq> OID_as_string oid \<Longrightarrow>
   OID_display registry oid = name @ '' ['' @ OID_as_string oid @ '']''"
  by (simp add: OID_display_def OIDS_lookup_def Let_def)

lemma OID_display_miss:
  "registry oid = None \<Longrightarrow> OID_display registry oid = OID_as_string oid"
  by (simp add: OID_display_def OIDS_lookup_def Let_def)

lemma rsa_name_differs: "''rsaEncryption'' \<noteq> OID_as_string [1, 2, 840, 113549, 1, 1, 1]"
  unfolding rsa_dotted by simp

lemma OID_display_rsa:
  assumes "registry [1, 2, 840, 113549, 1, 1, 1] = Some ''rsaEncryption''"
  shows "OID_display registry [1, 2, 840, 113549, 1, 1, 1] = ''rsaEncryption [1.2.840.113549.1.1.1]''"
proof -
  from assms rsa_name_differs
  have "OID_display registry [1, 2, 840, 113549, 1, 1, 1] =
      ''rsaEncryption'' @ '' ['' @ OID_as_string [1, 2, 840, 113549, 1, 1, 1] @ '']''"
    by (rule OID_display_named)
  then show ?thesis unfolding rsa_dotted by simp
qed

lemma sample_decode_OID: "decode_OID sample_library [0x06, 0x02, 0x2A, 0x03] = Inr [1, 2, 3]"
  by (simp add: sample_library_def sample_value_def sample_scan_def)

lemma sample_registry_rsa:
  "OIDS_registry sample_library [1, 2, 840, 113549, 1, 1, 1] = Some ''rsaEncryption''"
  by (simp add: sample_library_def)

lemma sample_registry_miss: "OIDS_registry sample_library [1, 2, 3] = None"
  by (simp add: sample_library_def)

text \<open>
  Claim C2. The display string of an object identifier is the name followed by the dotted
  form in brackets when the registry has a name for it that differs from the dotted form,
  and the dotted form alone when the registry has none. With the entry
  \<open>rsaEncryption\<close> for 1.2.840.113549.1.1.1 the display string is
  \<open>rsaEncryption [1.2.840.113549.1.1.1]\<close>. It is what the line labelled \<open>OBJECT\<close>
  shows for the identifier that the library's \<open>decode\<close> delivers.
\<close>

theorem OID_display_cases:
  "(registry oid = Some name \<and> name \<noteq> OID_as_string oid \<longrightarrow>
      OID_display registry oid = name @ '' ['' @ OID_as_string oid @ '']'')
   \<and> (registry oid = None \<longrightarrow> OID_display registry oid = OID_as_string oid)
   \<and> (registry [1, 2, 840, 113549, 1, 1, 1] = Some ''rsaEncryption'' \<longrightarrow>
        OID_display registry [1, 2, 840, 113549, 1, 1, 1] =
          ''rsaEncryption [1.2.840.113549.1.1.1]'')
   \<and> (decode_OID lib data = Inr oid \<longrightarrow>
        decode_leaf lib OBJECT_ID UNIVERSAL len data level =
          Inr (Stdout (emit ''OBJECT'' level len (OID_display (OIDS_registry lib) oid))))"
proof (intro conjI impI)
  assume "registry oid = Some name \<and> name \<noteq> OID_as_string oid"
  then have "registry oid = Some name" and "name \<noteq> OID_as_string oid"
    by (rule conjunct1, rule conjunct2)
  then show "OID_display registry oid = name @ '' ['' @ OID_as_string oid @ '']''"
    by (rule OID_display_named)
next
  assume "registry oid = None"
  then show "OID_display registry oid = OID_as_string oid" by (rule OID_display_miss)
next
  assume "registry [1, 2, 840, 113549, 1, 1, 1] = Some ''rsaEncryption''"
  then show "OID_display registry [1, 2, 840, 113549, 1, 1, 1] =
          ''rsaEncryption [1.2.840.113549.1.1.1]''" by (rule OID_display_rsa)
next
  assume "decode_OID lib data = Inr oid"
  then show "decode_leaf lib OBJECT_ID UNIVERSAL len data level =
          Inr (Stdout (emit ''OBJECT'' level len (OID_display (OIDS_registry lib) oid)))"
    by (rule leaf_OBJECT_ID)
qed

theorem OID_display_cases_witness:
  "OIDS_registry sample_library [1, 2, 840, 113549, 1, 1, 1] = Some ''rsaEncryption''
   \<and> ''rsaEncryption'' \<noteq> OID_as_string [1, 2, 840, 113549, 1, 1, 1]
   \<and> OID_display (OIDS_registry sample_library) [1, 2, 840, 113549, 1, 1, 1] =
       ''rsaEncryption'' @ '' ['' @ OID_as_string [1, 2, 840, 113549, 1, 1, 1] @ '']''
   \<and> OID_display (OIDS_registry sample_library) [1, 2, 840, 113549, 1, 1, 1] =
       ''rsaEncryption [1.2.840.113549.1.1.1]''
   \<and> OIDS_registry sample_library [1, 2, 3] = None
   \<and> OID_display (OIDS_registry sample_library) [1, 2, 3] = OID_as_string [1, 2, 3]
   \<and> decode_OID sample_library [0x06, 0x02, 0x2A, 0x03] = Inr [1, 2, 3]
   \<and> decode_leaf sample_library OBJECT_ID UNIVERSAL 2 [0x06, 0x02, 0x2A, 0x03] 0 =
        Inr (Stdout (emit ''OBJECT'' 0 2 (OID_display (OIDS_registry sample_library) [1, 2, 3])))"
proof -
  note rsa = OID_display_cases [of "OIDS_registry sample_library" "[1, 2, 840, 113549, 1, 1, 1]"
        "''rsaEncryption''" sample_library "[]" 0 0]
  note other = OID_display_cases [of "OIDS_registry sample_library" "[1, 2, 3]" "[]"
        sample_library "[0x06, 0x02, 0x2A, 0x03]" 2 0]
  have n: "OID_display (OIDS_registry sample_library) [1, 2, 840, 113549, 1, 1, 1] =
       ''rsaEncryption'' @ '' ['' @ OID_as_string [1, 2, 840, 113549, 1, 1, 1] @ '']''"
    by (rule rsa [THEN conjunct1, THEN mp]) (rule conjI [OF sample_registry_rsa rsa_name_differs])
  have a: "OID_display (OIDS_registry sample_library) [1, 2, 840, 113549, 1, 1, 1] =
       ''rsaEncryption [1.2.840.113549.1.1.1]''"
    by (rule rsa [THEN conjunct2, THEN conjunct2, THEN conjunct1, THEN mp])
       (rule sample_registry_rsa)
  have b: "OID_display (OIDS_registry sample_library) [1, 2, 3] = OID_as_string [1, 2, 3]"
    by (rule other [THEN conjunct2, THEN conjunct1, THEN mp]) (rule sample_registry_miss)
  have c: "decode_leaf sample_library OBJECT_ID UNIVERSAL 2 [0x06, 0x02, 0x2A, 0x03] 0 =
        Inr (Stdout (emit ''OBJECT'' 0 2 (OID_display (OIDS_registry sample_library) [1, 2, 3])))"
    by (rule other [THEN conjunct2, THEN conjunct2, THEN conjunct2, THEN mp])
       (rule sample_decode_OID)
  show ?thesis
    by (intro conjI)
       (rule sample_registry_rsa rsa_name_differs n a sample_registry_miss b sample_decode_OID c)+
qed

section \<open>Steps of the walker\<close>

lemma decode_at_end:
  "get_next_object lib decoder = Inr (obj, decoder') \<Longrightarrow> type_tag obj = NO_OBJECT \<Longrightarrow>
   decode lib decoder level = Some ([], None)"
  by (subst decode.simps) simp

lemma decode_scanner_throws:
  "get_next_object lib decoder = Inl e \<Longrightarrow> decode lib decoder level = Some ([], Some e)"
  by (subst decode.simps) simp

lemma decode_primitive:
  assumes "get_next_object lib decoder = Inr (obj, decoder')"
    and "type_tag obj \<noteq> NO_OBJECT"
    and "class_tag obj AND CONSTRUCTED = 0"
  shows "decode lib decoder level =
     (case decode_leaf lib (type_tag obj) (class_tag obj) (of_nat (length (obj_value obj)))
             (add_object lib (type_tag obj) (class_tag obj) (obj_value obj)) level of
        Inl e \<Rightarrow> Some ([], Some e)
      | Inr line \<Rightarrow>
          Option.bind (decode lib decoder' level) (\<lambda>(out, exc). Some (line # out, exc)))"
  using assms by (subst decode.simps) (simp add: Let_def split: sum.splits)

lemma decode_constructed:
  assumes "get_next_object lib decoder = Inr (obj, decoder')"
    and "type_tag obj \<noteq> NO_OBJECT"
    and "class_tag obj AND CONSTRUCTED \<noteq> 0"
  shows "decode lib decoder level =
     Option.bind (decode lib (obj_value obj) (level + 1))
       (\<lambda>(inner, exc).
          let line = Stdout (emit (if type_tag obj = SEQUENCE then ''SEQUENCE''
                                   else if type_tag obj = SET then ''SET''
                                   else cons_name (type_tag obj) (class_tag obj))
                                  level (of_nat (length (obj_value obj))) '''')
          in case exc of
               Some e \<Rightarrow> Some (line # inner, Some e)
             | None \<Rightarrow>
                 Option.bind (decode lib decoder' level)
                   (\<lambda>(out, exc'). Some (line # inner @ out, exc')))"
proof (cases "decode lib (obj_value obj) (level + 1)")
  case None
  with assms show ?thesis by (subst decode.simps) (simp add: Let_def)
next
  case (Some r)
  obtain inner exc where r: "r = (inner, exc)" by (cases r)
  show ?thesis
  proof (cases exc)
    case None
    with assms Some r show ?thesis
      by (subst decode.simps) (simp add: Let_def split: option.splits prod.splits)
  next
    case (Some e)
    with assms \<open>decode lib (obj_value obj) (level + 1) = Some r\<close> r show ?thesis
      by (subst decode.simps) (simp add: Let_def)
  qed
qed

lemma not_text_of_iff: "not_text_of bits \<longleftrightarrow> \<not> (\<forall>b\<in>set bits. isgraph b \<or> isspace b)"
proof -
  have step: "fold (\<lambda>b not_text. if \<not> isgraph b \<and> \<not> isspace b then True else not_text) xs acc
              \<longleftrightarrow> acc \<or> \<not> (\<forall>b\<in>set xs. isgraph b \<or> isspace b)" for xs acc
    by (induction xs arbitrary: acc) auto
  have "not_text_of bits =
      fold (\<lambda>b not_text. if \<not> isgraph b \<and> \<not> isspace b then True else not_text)
           (map (\<lambda>j. bits ! j) [0..<length bits]) False"
    unfolding not_text_of_def by (simp only: fold_map comp_def)
  then show ?thesis by (simp only: map_nth step simp_thms)
qed

lemma text_or_hex_eq:
  "text_or_hex hex_encoder bits =
     (if \<forall>b\<in>set bits. isgraph b \<or> isspace b then map byte_to_char bits else hex_encoder bits)"
  by (auto simp: text_or_hex_def Pipe_read_all_def not_text_of_iff)

lemma leaf_tagged:
  "cl_tag = APPLICATION \<or> cl_tag = CONTEXT_SPECIFIC \<or> cl_tag = PRIVATE \<Longrightarrow>
   decode_leaf lib ty_tag cl_tag len bits level =
     Inr (Stdout (emit (''['' @ to_string ty_tag @ '']'') level len
                       (text_or_hex (Hex_Encoder lib) bits)))"
  unfolding decode_leaf_def Let_def by (simp only: if_True)

lemma tagged_not_constructed:
  "cl_tag = APPLICATION \<or> cl_tag = CONTEXT_SPECIFIC \<or> cl_tag = PRIVATE \<Longrightarrow>
   cl_tag AND CONSTRUCTED = 0"
  by (auto simp: tag_defs)

lemma leaf_unknown:
  assumes "cl_tag \<noteq> APPLICATION" "cl_tag \<noteq> CONTEXT_SPECIFIC" "cl_tag \<noteq> PRIVATE"
    and "ty_tag \<notin> {OBJECT_ID, INTEGER, BOOLEAN, NULL_TAG, OCTET_STRING, BIT_STRING,
                    PRINTABLE_STRING, NUMERIC_STRING, IA5_STRING, T61_STRING,
                    VISIBLE_STRING, UTF8_STRING, BMP_STRING, UTC_TIME, GENERALIZED_TIME}"
  shows "decode_leaf lib ty_tag cl_tag len bits level =
     Inr (Stderr (''Unknown tag: class='' @ printf_02X (unat cl_tag)
                  @ '', type='' @ printf_02X (unat ty_tag) @ newline))"
  using assms unfolding decode_leaf_def Let_def by simp

lemma sample_scan_tagged:
  "get_next_object sample_library [0x80, 0x01, 0x41] =
     Inr (\<lparr>type_tag = 0, class_tag = 0x80, obj_value = [0x41]\<rparr>, [])"
  by (simp add: sample_library_def sample_scan_def)

lemma sample_scan_empty:
  "get_next_object sample_library [] =
     Inr (\<lparr>type_tag = NO_OBJECT, class_tag = NO_OBJECT, obj_value = []\<rparr>, [])"
  by (simp add: sample_library_def sample_scan_def)

lemma decode_tagged_primitive:
  assumes "get_next_object lib decoder = Inr (obj, decoder')"
    and "type_tag obj \<noteq> NO_OBJECT"
    and "class_tag obj = APPLICATION \<or> class_tag obj = CONTEXT_SPECIFIC \<or>
         class_tag obj = PRIVATE"
  shows "decode lib decoder level =
     Option.bind (decode lib decoder' level)
       (\<lambda>(out, exc).
          Some (Stdout (emit (''['' @ to_string (type_tag obj) @ '']'') level
                             (of_nat (length (obj_value obj)))
                             (let bits = add_object lib (type_tag obj) (class_tag obj)
                                           (obj_value obj)
                              in if \<forall>b\<in>set bits. isgraph b \<or> isspace b
                                 then map byte_to_char bits
                                 else Hex_Encoder lib bits))
                # out, exc))"
proof -
  from assms(3) have nc: "class_tag obj AND CONSTRUCTED = 0" by (rule tagged_not_constructed)
  show ?thesis
    by (simp only: decode_primitive [OF assms(1,2) nc] leaf_tagged [OF assms(3)]
          text_or_hex_eq Let_def sum.case)
qed

lemma sample_scan_application:
  "get_next_object sample_library
     [0x41, 0x0A, 0x30, 0x31, 0x32, 0x33, 0x34, 0x35, 0x36, 0x37, 0x38, 0x39] =
   Inr (\<lparr>type_tag = 1, class_tag = APPLICATION,
         obj_value = [0x30, 0x31, 0x32, 0x33, 0x34, 0x35, 0x36, 0x37, 0x38, 0x39]\<rparr>, [])"
  by (simp add: sample_library_def sample_scan_def tag_defs)

text \<open>
  Claim C5 does not hold of the code. The branch for primitive objects of class
  APPLICATION, CONTEXT_SPECIFIC or PRIVATE labels the line with the type tag in brackets,
  but it classifies and shows \<open>bits\<close>, the object as the encoder writes it back with its
  tag and length in front (lines 96 to 98), where the branch for OCTET STRING classifies
  and shows the value. With an encoder that puts the identifier and the length in front:
  \<^item> the stream 80 01 41 is a CONTEXT_SPECIFIC object with tag 0 and the value \<open>A\<close>, which
    is printable and which the heuristic, applied to the value, shows as \<open>A\<close>; the line
    shows the hexadecimal text 800141;
  \<^item> the stream 41 0A 30 \<dots> 39 is an APPLICATION object with tag 1 and the value
    \<open>0123456789\<close>; the line shows twelve characters, the identifier and the length byte
    in front of the value.
\<close>

theorem tagged_value_shown_with_header:
  "get_next_object sample_library [0x80, 0x01, 0x41] =
     Inr (\<lparr>type_tag = 0, class_tag = CONTEXT_SPECIFIC, obj_value = [0x41]\<rparr>, [])
   \<and> text_or_hex (Hex_Encoder sample_library) [0x41] = [byte_to_char 0x41]
   \<and> add_object sample_library 0 CONTEXT_SPECIFIC [0x41] = [0x80, 0x01, 0x41]
   \<and> decode sample_library [0x80, 0x01, 0x41] 0 =
       Some ([Stdout (emit ''[0]'' 0 1 ''800141'')], None)
   \<and> decode sample_library
        [0x41, 0x0A, 0x30, 0x31, 0x32, 0x33, 0x34, 0x35, 0x36, 0x37, 0x38, 0x39] 0 =
       Some ([Stdout (emit ''[1]'' 0 10
                (map byte_to_char
                   [0x41, 0x0A, 0x30, 0x31, 0x32, 0x33, 0x34, 0x35, 0x36, 0x37, 0x38, 0x39]))],
             None)"
proof -
  let ?obj = "\<lparr>type_tag = 0, class_tag = CONTEXT_SPECIFIC, obj_value = [0x41]\<rparr>"
  let ?app = "\<lparr>type_tag = 1, class_tag = APPLICATION,
         obj_value = [0x30, 0x31, 0x32, 0x33, 0x34, 0x35, 0x36, 0x37, 0x38, 0x39]\<rparr>"
  have s: "get_next_object sample_library [0x80, 0x01, 0x41] = Inr (?obj, [])"
    using sample_scan_tagged by (simp add: tag_defs)
  have t: "type_tag ?obj \<noteq> NO_OBJECT" by (simp add: tag_defs)
  have c: "class_tag ?obj = APPLICATION \<or> class_tag ?obj = CONTEXT_SPECIFIC \<or>
         class_tag ?obj = PRIVATE" by simp
  have ta: "type_tag ?app \<noteq> NO_OBJECT" by (simp add: tag_defs)
  have ca: "class_tag ?app = APPLICATION \<or> class_tag ?app = CONTEXT_SPECIFIC \<or>
         class_tag ?app = PRIVATE" by simp
  have rest: "decode sample_library [] 0 = Some ([], None)"
    by (rule decode_at_end [OF sample_scan_empty]) simp
  have v: "text_or_hex (Hex_Encoder sample_library) [0x41] = [byte_to_char 0x41]"
    by (simp add: text_or_hex_eq isgraph_def)
  have a: "add_object sample_library 0 CONTEXT_SPECIFIC [0x41] = [0x80, 0x01, 0x41]"
    by (simp add: sample_library_def sample_add_object_def tag_defs)
  have d: "decode sample_library [0x80, 0x01, 0x41] 0 =
       Some ([Stdout (emit ''[0]'' 0 1 ''800141'')], None)"
    unfolding decode_tagged_primitive [OF s t c, of 0] rest
    by (simp add: sample_library_def sample_add_object_def isgraph_def isspace_def
          to_string_def dec_digits.simps printf_02X_def hex_digits.simps tag_defs)
  have e: "decode sample_library
        [0x41, 0x0A, 0x30, 0x31, 0x32, 0x33, 0x34, 0x35, 0x36, 0x37, 0x38, 0x39] 0 =
       Some ([Stdout (emit ''[1]'' 0 10
                (map byte_to_char
                   [0x41, 0x0A, 0x30, 0x31, 0x32, 0x33, 0x34, 0x35, 0x36, 0x37, 0x38, 0x39]))],
             None)"
    unfolding decode_tagged_primitive [OF sample_scan_application ta ca, of 0] rest
    by (simp add: sample_library_def sample_add_object_def isgraph_def isspace_def
          to_string_def dec_digits.simps tag_defs)
  from s v a d e show ?thesis by (intro conjI)
qed

text \<open>
  Claim C7. An object that no branch of the chain takes (a primitive object, not of class
  APPLICATION, CONTEXT_SPECIFIC or PRIVATE, whose type tag is none of those compared
  with) makes the program write one line to the standard error stream. No exception is
  thrown, and the walker goes on with the next object of the same decoder.
\<close>

theorem unknown_tag_is_not_fatal:
  assumes "get_next_object lib decoder = Inr (obj, decoder')"
    and "class_tag obj AND CONSTRUCTED = 0"
    and "class_tag obj \<noteq> APPLICATION" "class_tag obj \<noteq> CONTEXT_SPECIFIC"
        "class_tag obj \<noteq> PRIVATE"
    and "type_tag obj \<notin> {NO_OBJECT, OBJECT_ID, INTEGER, BOOLEAN, NULL_TAG, OCTET_STRING,
                           BIT_STRING, PRINTABLE_STRING, NUMERIC_STRING, IA5_STRING,
                           T61_STRING, VISIBLE_STRING, UTF8_STRING, BMP_STRING, UTC_TIME,
                           GENERALIZED_TIME}"
  shows "decode lib decoder level =
     Option.bind (decode lib decoder' level)
       (\<lambda>(out, exc).
          Some (Stderr (''Unknown tag: class='' @ printf_02X (unat (class_tag obj))
                        @ '', type='' @ printf_02X (unat (type_tag obj)) @ newline)
                # out, exc))"
proof -
  from assms(6) have no: "type_tag obj \<noteq> NO_OBJECT" by simp
  from assms(6) have ty: "type_tag obj \<notin> {OBJECT_ID, INTEGER, BOOLEAN, NULL_TAG, OCTET_STRING,
                    BIT_STRING, PRINTABLE_STRING, NUMERIC_STRING, IA5_STRING, T61_STRING,
                    VISIBLE_STRING, UTF8_STRING, BMP_STRING, UTC_TIME, GENERALIZED_TIME}"
    by simp
  show ?thesis
    by (simp only: decode_primitive [OF assms(1) no assms(2)]
          leaf_unknown [OF assms(3,4,5) ty] sum.case)
qed

lemma byte_char_roundtrip: "byte_to_char (of_nat (of_char c)) = c"
  by (simp add: byte_to_char_def unat_of_nat)

lemma sample_shows_decimal:
  "\<bar>n\<bar> < 65536 \<Longrightarrow>
   INTEGER_display (BigInt_encode sample_library) n = dec_digits (nat \<bar>n\<bar>)"
  by (simp add: INTEGER_display_small sample_library_def comp_def byte_char_roundtrip)

lemma sample_scan_INTEGER:
  "unat l < 128 \<Longrightarrow> unat l \<le> length rest \<Longrightarrow>
   get_next_object sample_library (0x02 # l # rest) =
     Inr (\<lparr>type_tag = INTEGER, class_tag = UNIVERSAL, obj_value = take (unat l) rest\<rparr>,
          drop (unat l) rest)"
  by (simp add: sample_library_def sample_scan_def tag_defs)

lemma sample_decode_one_byte:
  "unat b < 128 \<Longrightarrow>
   decode_BigInt sample_library (add_object sample_library INTEGER UNIVERSAL [b]) = Inr (uint b)"
  by (simp add: sample_library_def sample_add_object_def sample_value_def sample_scan_def
        sample_BigInt_def tag_defs)

lemma sample_decode_INTEGER_7:
  "decode sample_library [0x02, 0x01, 0x07] 0 = Some ([Stdout (emit ''INTEGER'' 0 1 ''7'')], None)"
proof -
  let ?obj = "\<lparr>type_tag = INTEGER, class_tag = UNIVERSAL, obj_value = [0x07]\<rparr>"
  have s: "get_next_object sample_library [0x02, 0x01, 0x07] = Inr (?obj, [])"
    using sample_scan_INTEGER [of 1 "[0x07]"] by simp
  have t: "type_tag ?obj \<noteq> NO_OBJECT" by (simp add: tag_defs)
  have c: "class_tag ?obj AND CONSTRUCTED = 0" by (simp add: tag_defs)
  have d: "decode_BigInt sample_library (add_object sample_library INTEGER UNIVERSAL [0x07]) = Inr 7"
    using sample_decode_one_byte [of 7] by simp
  have v: "INTEGER_display (BigInt_encode sample_library) 7 = ''7''"
    by (simp add: sample_shows_decimal dec_digits.simps)
  have rest: "decode sample_library [] 0 = Some ([], None)"
    by (rule decode_at_end [OF sample_scan_empty]) simp
  show ?thesis
    unfolding decode_primitive [OF s t c]
    by (simp add: leaf_INTEGER [OF d] v rest)
qed

theorem unknown_tag_is_not_fatal_witness:
  "get_next_object sample_library [0x0A, 0x01, 0x05, 0x02, 0x01, 0x07] =
     Inr (\<lparr>type_tag = 0x0A, class_tag = 0, obj_value = [0x05]\<rparr>, [0x02, 0x01, 0x07])
   \<and> (0 :: ASN1_Tag) AND CONSTRUCTED = 0
   \<and> (0 :: ASN1_Tag) \<noteq> APPLICATION \<and> (0 :: ASN1_Tag) \<noteq> CONTEXT_SPECIFIC
   \<and> (0 :: ASN1_Tag) \<noteq> PRIVATE
   \<and> (0x0A :: ASN1_Tag) \<notin> {NO_OBJECT, OBJECT_ID, INTEGER, BOOLEAN, NULL_TAG, OCTET_STRING,
                                BIT_STRING, PRINTABLE_STRING, NUMERIC_STRING, IA5_STRING,
                                T61_STRING, VISIBLE_STRING, UTF8_STRING, BMP_STRING, UTC_TIME,
                                GENERALIZED_TIME}
   \<and> decode sample_library [0x0A, 0x01, 0x05, 0x02, 0x01, 0x07] 0 =
       Some ([Stderr (''Unknown tag: class=00, type=0A'' @ newline),
              Stdout (emit ''INTEGER'' 0 1 ''7'')], None)"
proof -
  let ?obj = "\<lparr>type_tag = 0x0A, class_tag = 0, obj_value = [0x05]\<rparr>"
  have s: "get_next_object sample_library [0x0A, 0x01, 0x05, 0x02, 0x01, 0x07] =
     Inr (?obj, [0x02, 0x01, 0x07])"
    by (simp add: sample_library_def sample_scan_def)
  have c: "class_tag ?obj AND CONSTRUCTED = 0" by simp
  have c1: "class_tag ?obj \<noteq> APPLICATION" by (simp add: tag_defs)
  have c2: "class_tag ?obj \<noteq> CONTEXT_SPECIFIC" by (simp add: tag_defs)
  have c3: "class_tag ?obj \<noteq> PRIVATE" by (simp add: tag_defs)
  have t: "type_tag ?obj \<notin> {NO_OBJECT, OBJECT_ID, INTEGER, BOOLEAN, NULL_TAG, OCTET_STRING,
                                BIT_STRING, PRINTABLE_STRING, NUMERIC_STRING, IA5_STRING,
                                T61_STRING, VISIBLE_STRING, UTF8_STRING, BMP_STRING, UTC_TIME,
                                GENERALIZED_TIME}"
    by (simp add: tag_defs)
  have r: "decode sample_library [0x0A, 0x01, 0x05, 0x02, 0x01, 0x07] 0 =
       Some ([Stderr (''Unknown tag: class=00, type=0A'' @ newline),
              Stdout (emit ''INTEGER'' 0 1 ''7'')], None)"
    unfolding unknown_tag_is_not_fatal [OF s c c1 c2 c3 t, of 0] sample_decode_INTEGER_7
    by (simp add: printf_02X_def hex_digits.simps)
  from s c c1 c2 c3 t r show ?thesis by simp
qed

section \<open>The line of a BIT STRING\<close>

lemma decode_BIT_STRING:
  assumes "get_next_object lib decoder = Inr (obj, decoder')"
    and "type_tag obj = BIT_STRING" and "class_tag obj = UNIVERSAL"
    and "decode_bytes lib (add_object lib BIT_STRING UNIVERSAL (obj_value obj)) BIT_STRING
           = Inr B"
  shows "decode lib decoder level =
     Option.bind (decode lib decoder' level)
       (\<lambda>(out, exc).
          Some (Stdout (emit ''BIT STRING'' level (of_nat (length (obj_value obj)))
                             (BIT_STRING_display B))
                # out, exc))"
proof -
  from assms(2) have t: "type_tag obj \<noteq> NO_OBJECT" by (simp add: tag_defs)
  from assms(3) have c: "class_tag obj AND CONSTRUCTED = 0" by (simp add: tag_defs)
  show ?thesis
    unfolding decode_primitive [OF assms(1) t c] assms(2,3) leaf_BIT_STRING [OF assms(4)]
    by simp
qed

lemma sample_scan_BIT_STRING:
  "get_next_object sample_library [0x03, 0x02, 0x06, 0xA0] =
     Inr (\<lparr>type_tag = BIT_STRING, class_tag = UNIVERSAL, obj_value = [0x06, 0xA0]\<rparr>, [])"
  by (simp add: sample_library_def sample_scan_def tag_defs)

lemma sample_bits_06A0:
  "decode_bytes sample_library (add_object sample_library BIT_STRING UNIVERSAL [0x06, 0xA0])
     BIT_STRING = Inr [0xA0]"
  by (simp add: sample_library_def sample_add_object_def sample_value_def sample_scan_def
        tag_defs)

lemma sample_scan_zero_BIT_STRING:
  "get_next_object sample_library [0x03, 0x03, 0x00, 0x00, 0x00] =
     Inr (\<lparr>type_tag = BIT_STRING, class_tag = UNIVERSAL, obj_value = [0x00, 0x00, 0x00]\<rparr>, [])"
  by (simp add: sample_library_def sample_scan_def tag_defs)

lemma sample_bits_zero:
  "decode_bytes sample_library (add_object sample_library BIT_STRING UNIVERSAL [0x00, 0x00, 0x00])
     BIT_STRING = Inr [0x00, 0x00]"
  by (simp add: sample_library_def sample_add_object_def sample_value_def sample_scan_def
        tag_defs)

lemma display_A0: "BIT_STRING_display [0xA0] = ''101''"
  by code_simp

lemma spec_display_06A0: "spec_bit_display [0x06, 0xA0] = ''110000000000101''"
  unfolding display_is_spec [symmetric] by code_simp

text \<open>
  Claim C1, as stated, fails: the display string is not made from the raw value bytes of
  the node. The BIT STRING with the value bytes 06 A0 is shown as \<open>101\<close>, while the
  algorithm of the claim applied to 06 A0 gives \<open>110000000000101\<close>. The branch works on
  the buffer that the library's \<open>decode\<close> fills, and a decoder of BIT STRINGs takes the
  first value byte, the number of unused bits, off the buffer.
\<close>

theorem BIT_STRING_raw_value_counterexample:
  "get_next_object sample_library [0x03, 0x02, 0x06, 0xA0] =
     Inr (\<lparr>type_tag = BIT_STRING, class_tag = UNIVERSAL, obj_value = [0x06, 0xA0]\<rparr>, [])
   \<and> decode sample_library [0x03, 0x02, 0x06, 0xA0] 0 =
       Some ([Stdout (emit ''BIT STRING'' 0 2 ''101'')], None)
   \<and> spec_bit_display [0x06, 0xA0] = ''110000000000101''"
proof -
  let ?obj = "\<lparr>type_tag = BIT_STRING, class_tag = UNIVERSAL, obj_value = [0x06, 0xA0]\<rparr>"
  have b: "decode_bytes sample_library
             (add_object sample_library BIT_STRING UNIVERSAL (obj_value ?obj)) BIT_STRING
           = Inr [0xA0]"
    using sample_bits_06A0 by simp
  have rest: "decode sample_library [] 0 = Some ([], None)"
    by (rule decode_at_end [OF sample_scan_empty]) simp
  have "decode sample_library [0x03, 0x02, 0x06, 0xA0] 0 =
       Some ([Stdout (emit ''BIT STRING'' 0 2 ''101'')], None)"
    unfolding decode_BIT_STRING [OF sample_scan_BIT_STRING _ _ b, simplified, of 0] rest
      display_A0
    by simp
  with sample_scan_BIT_STRING spec_display_06A0 show ?thesis by (intro conjI)
qed

text \<open>
  Claim C1, amended. For a universal, primitive BIT STRING object let \<open>B\<close> be the buffer
  that the library's \<open>decode\<close> fills for it (\<open>data.decode(bits, type_tag)\<close>, line 210),
  in place of the raw value bytes. The program prints the line labelled \<open>BIT STRING\<close>
  with the display string that the specification describes, made from \<open>B\<close>: build \<open>L\<close>
  from the bytes of \<open>B\<close> taken last to first, bit 7 down to bit 0 in each, read \<open>L\<close> from
  its last index back to index 0 and drop the zeros in front of the first one. When every
  byte of \<open>B\<close> is zero the display string is empty.
\<close>

theorem BIT_STRING_display_as_specified:
  assumes "get_next_object lib decoder = Inr (obj, decoder')"
    and "type_tag obj = BIT_STRING" and "class_tag obj = UNIVERSAL"
    and "decode_bytes lib (add_object lib BIT_STRING UNIVERSAL (obj_value obj)) BIT_STRING
           = Inr B"
  shows "decode lib decoder level =
     Option.bind (decode lib decoder' level)
       (\<lambda>(out, exc).
          Some (Stdout (emit ''BIT STRING'' level (of_nat (length (obj_value obj)))
                             (spec_bit_display B))
                # out, exc))
   \<and> BIT_STRING_display B = spec_bit_display B
   \<and> ((\<forall>b\<in>set B. b = 0) \<longrightarrow> spec_bit_display B = '''')"
proof (intro conjI impI)
  show "decode lib decoder level =
     Option.bind (decode lib decoder' level)
       (\<lambda>(out, exc).
          Some (Stdout (emit ''BIT STRING'' level (of_nat (length (obj_value obj)))
                             (spec_bit_display B))
                # out, exc))"
    using decode_BIT_STRING [OF assms, of level] by (simp only: display_is_spec)
next
  show "BIT_STRING_display B = spec_bit_display B" by (rule display_is_spec)
next
  assume "\<forall>b\<in>set B. b = 0"
  then show "spec_bit_display B = ''''" by (rule zero_display)
qed

theorem BIT_STRING_display_as_specified_witness:
  "get_next_object sample_library [0x03, 0x02, 0x06, 0xA0] =
     Inr (\<lparr>type_tag = BIT_STRING, class_tag = UNIVERSAL, obj_value = [0x06, 0xA0]\<rparr>, [])
   \<and> decode_bytes sample_library (add_object sample_library BIT_STRING UNIVERSAL [0x06, 0xA0])
        BIT_STRING = Inr [0xA0]
   \<and> decode sample_library [0x03, 0x02, 0x06, 0xA0] 0 =
       Some ([Stdout (emit ''BIT STRING'' 0 2 (spec_bit_display [0xA0]))], None)
   \<and> spec_bit_display [0xA0] = ''101''
   \<and> get_next_object sample_library [0x03, 0x03, 0x00, 0x00, 0x00] =
       Inr (\<lparr>type_tag = BIT_STRING, class_tag = UNIVERSAL, obj_value = [0x00, 0x00, 0x00]\<rparr>, [])
   \<and> decode_bytes sample_library
        (add_object sample_library BIT_STRING UNIVERSAL [0x00, 0x00, 0x00]) BIT_STRING
       = Inr [0x00, 0x00]
   \<and> list_all (\<lambda>b. b = 0) [0x00, 0x00 :: byte]
   \<and> spec_bit_display [0x00, 0x00] = ''''
   \<and> decode sample_library [0x03, 0x03, 0x00, 0x00, 0x00] 0 =
       Some ([Stdout (emit ''BIT STRING'' 0 3 '''')], None)"
proof -
  let ?obj = "\<lparr>type_tag = BIT_STRING, class_tag = UNIVERSAL, obj_value = [0x06, 0xA0]\<rparr>"
  let ?zero = "\<lparr>type_tag = BIT_STRING, class_tag = UNIVERSAL, obj_value = [0x00, 0x00, 0x00]\<rparr>"
  have b: "decode_bytes sample_library
             (add_object sample_library BIT_STRING UNIVERSAL (obj_value ?obj)) BIT_STRING
           = Inr [0xA0]"
    using sample_bits_06A0 by simp
  have bz: "decode_bytes sample_library
             (add_object sample_library BIT_STRING UNIVERSAL (obj_value ?zero)) BIT_STRING
           = Inr [0x00, 0x00]"
    using sample_bits_zero by simp
  have ty: "type_tag ?obj = BIT_STRING" and cl: "class_tag ?obj = UNIVERSAL" by simp_all
  have tz: "type_tag ?zero = BIT_STRING" and cz: "class_tag ?zero = UNIVERSAL" by simp_all
  note one = BIT_STRING_display_as_specified [OF sample_scan_BIT_STRING ty cl b, of 0]
  note two = BIT_STRING_display_as_specified [OF sample_scan_zero_BIT_STRING tz cz bz, of 0]
  have rest: "decode sample_library [] 0 = Some ([], None)"
    by (rule decode_at_end [OF sample_scan_empty]) simp
  have z: "\<forall>b\<in>set [0x00, 0x00 :: byte]. b = 0" by simp
  have z': "list_all (\<lambda>b. b = 0) [0x00, 0x00 :: byte]" by simp
  have d1: "decode sample_library [0x03, 0x02, 0x06, 0xA0] 0 =
       Some ([Stdout (emit ''BIT STRING'' 0 2 (spec_bit_display [0xA0]))], None)"
    unfolding one [THEN conjunct1] rest by simp
  have v1: "spec_bit_display [0xA0] = ''101''"
    using one [THEN conjunct2, THEN conjunct1] display_A0 by simp
  have v2: "spec_bit_display [0x00, 0x00] = ''''"
    by (rule two [THEN conjunct2, THEN conjunct2, THEN mp]) (rule z)
  have d2: "decode sample_library [0x03, 0x03, 0x00, 0x00, 0x00] 0 =
       Some ([Stdout (emit ''BIT STRING'' 0 3 '''')], None)"
    unfolding two [THEN conjunct1] rest v2 by simp
  from sample_scan_BIT_STRING sample_bits_06A0 d1 v1 sample_scan_zero_BIT_STRING
    sample_bits_zero z' v2 d2
  show ?thesis by (intro conjI)
qed

section \<open>The end of the stream\<close>

lemma main_one_file:
  "DataSource_Stream lib path = Inr inp \<Longrightarrow> \<not> PEM_matches lib inp \<Longrightarrow>
   main lib argv0 [path] =
     Option.bind (decode lib inp INITIAL_LEVEL) (\<lambda>r. Some (main_finish r))"
  by (simp add: main_def)

lemma main_one_PEM_file:
  "DataSource_Stream lib path = Inr inp \<Longrightarrow> PEM_matches lib inp \<Longrightarrow>
   PEM_decode lib inp = Inr ber \<Longrightarrow>
   main lib argv0 [path] =
     Option.bind (decode lib ber INITIAL_LEVEL) (\<lambda>r. Some (main_finish r))"
  by (simp add: main_def)

lemma sample_open_empty: "DataSource_Stream sample_library ''empty.der'' = Inr []"
  by (simp add: sample_library_def)

lemma sample_not_PEM_empty: "\<not> PEM_matches sample_library []"
  by (simp add: sample_library_def)

text \<open>
  Claim C9. When the first read of a decoder meets the end of the stream, \<open>decode\<close>
  returns at once: nothing is printed and no exception is thrown. When that decoder is the
  one \<open>main\<close> builds from its file, directly or after removing the PEM armour, \<open>main\<close>
  prints nothing and returns 0.
\<close>

theorem empty_stream_is_success:
  "(get_next_object lib decoder = Inr (obj, decoder') \<and> type_tag obj = NO_OBJECT \<longrightarrow>
      decode lib decoder level = Some ([], None))
   \<and> (DataSource_Stream lib path = Inr inp \<and> \<not> PEM_matches lib inp \<and>
        get_next_object lib inp = Inr (obj, decoder') \<and> type_tag obj = NO_OBJECT \<longrightarrow>
        main lib argv0 [path] = Some (0, []))
   \<and> (DataSource_Stream lib path = Inr inp \<and> PEM_matches lib inp \<and>
        PEM_decode lib inp = Inr ber \<and>
        get_next_object lib ber = Inr (obj, decoder') \<and> type_tag obj = NO_OBJECT \<longrightarrow>
        main lib argv0 [path] = Some (0, []))"
proof (intro conjI impI)
  assume "get_next_object lib decoder = Inr (obj, decoder') \<and> type_tag obj = NO_OBJECT"
  then show "decode lib decoder level = Some ([], None)"
    using decode_at_end [of lib decoder obj decoder' level] by blast
next
  assume a: "DataSource_Stream lib path = Inr inp \<and> \<not> PEM_matches lib inp \<and>
        get_next_object lib inp = Inr (obj, decoder') \<and> type_tag obj = NO_OBJECT"
  then have "decode lib inp INITIAL_LEVEL = Some ([], None)"
    using decode_at_end [of lib inp obj decoder' INITIAL_LEVEL] by blast
  with a show "main lib argv0 [path] = Some (0, [])"
    by (simp add: main_one_file main_finish_def)
next
  assume a: "DataSource_Stream lib path = Inr inp \<and> PEM_matches lib inp \<and>
        PEM_decode lib inp = Inr ber \<and>
        get_next_object lib ber = Inr (obj, decoder') \<and> type_tag obj = NO_OBJECT"
  then have "decode lib ber INITIAL_LEVEL = Some ([], None)"
    using decode_at_end [of lib ber obj decoder' INITIAL_LEVEL] by blast
  with a show "main lib argv0 [path] = Some (0, [])"
    by (simp add: main_one_PEM_file main_finish_def)
qed

theorem empty_stream_is_success_witness:
  "DataSource_Stream sample_library ''empty.der'' = Inr []
   \<and> \<not> PEM_matches sample_library []
   \<and> get_next_object sample_library [] =
       Inr (\<lparr>type_tag = NO_OBJECT, class_tag = NO_OBJECT, obj_value = []\<rparr>, [])
   \<and> decode sample_library [] 5 = Some ([], None)
   \<and> main sample_library ''asn1'' [''empty.der''] = Some (0, [])"
proof -
  note e = empty_stream_is_success [of sample_library "[]"
      "\<lparr>type_tag = NO_OBJECT, class_tag = NO_OBJECT, obj_value = []\<rparr>" "[]" _
      "''empty.der''" "[]" "''asn1''" "[]"]
  have t: "type_tag \<lparr>type_tag = NO_OBJECT, class_tag = NO_OBJECT, obj_value = []\<rparr> = NO_OBJECT"
    by simp
  have a: "decode sample_library [] 5 = Some ([], None)"
    by (rule e [THEN conjunct1, THEN mp]) (rule conjI [OF sample_scan_empty t])
  have b: "main sample_library ''asn1'' [''empty.der''] = Some (0, [])"
    by (rule e [THEN conjunct2, THEN conjunct1, THEN mp])
       (intro conjI sample_open_empty sample_not_PEM_empty sample_scan_empty t)
  from sample_open_empty sample_not_PEM_empty sample_scan_empty a b show ?thesis
    by (intro conjI)
qed

section \<open>A SEQUENCE of INTEGERs\<close>

lemma INTEGER_children_lines:
  "INTEGER_children lib s children \<Longrightarrow>
   decode lib s level =
     Some (map (\<lambda>(child, number).
                  Stdout (emit ''INTEGER'' level (of_nat (length (obj_value child)))
                               (INTEGER_display (BigInt_encode lib) number)))
               children, None)"
proof (induction children arbitrary: s)
  case Nil
  then obtain obj s' where "get_next_object lib s = Inr (obj, s')" "type_tag obj = NO_OBJECT"
    by (auto split: sum.splits)
  then have "decode lib s level = Some ([], None)" by (rule decode_at_end)
  then show ?case by simp
next
  case (Cons entry rest)
  obtain child number where entry: "entry = (child, number)" by (cases entry)
  from Cons.prems obtain s' where
    scan: "get_next_object lib s = Inr (child, s')" and
    ty: "type_tag child = INTEGER" and cl: "class_tag child = UNIVERSAL" and
    num: "decode_BigInt lib (add_object lib (type_tag child) (class_tag child) (obj_value child))
            = Inr number" and
    more: "INTEGER_children lib s' rest"
    unfolding entry by (auto split: sum.splits)
  from ty have t: "type_tag child \<noteq> NO_OBJECT" by (simp add: tag_defs)
  from cl have c: "class_tag child AND CONSTRUCTED = 0" by (simp add: tag_defs)
  from num have leaf:
    "decode_leaf lib (type_tag child) (class_tag child) (of_nat (length (obj_value child)))
       (add_object lib (type_tag child) (class_tag child) (obj_value child)) level =
     Inr (Stdout (emit ''INTEGER'' level (of_nat (length (obj_value child)))
                       (INTEGER_display (BigInt_encode lib) number)))"
    unfolding ty cl by (rule leaf_INTEGER)
  from more have rest: "decode lib s' level =
     Some (map (\<lambda>(child, number).
                  Stdout (emit ''INTEGER'' level (of_nat (length (obj_value child)))
                               (INTEGER_display (BigInt_encode lib) number)))
               rest, None)"
    by (rule Cons.IH)
  show ?case
    unfolding decode_primitive [OF scan t c] leaf rest entry by simp
qed

text \<open>
  Claim C6. Let the scanner deliver a constructed object with type tag SEQUENCE whose
  contents are \<open>N\<close> universal, primitive INTEGER objects that the library decodes. Then
  the program prints one line labelled \<open>SEQUENCE\<close> at the current depth and after it one
  line labelled \<open>INTEGER\<close> at the next depth for each child, in the order of the stream,
  and goes on with the object behind the SEQUENCE. When the stream ends there, these
  \<open>1 + N\<close> lines are all that is printed and no exception is thrown.
\<close>

theorem SEQUENCE_of_INTEGERs:
  assumes "get_next_object lib decoder = Inr (obj, decoder')"
    and "type_tag obj = SEQUENCE"
    and "class_tag obj AND CONSTRUCTED \<noteq> 0"
    and "INTEGER_children lib (obj_value obj) children"
  shows "decode lib decoder level =
     Option.bind (decode lib decoder' level)
       (\<lambda>(out, exc).
          Some (Stdout (emit ''SEQUENCE'' level (of_nat (length (obj_value obj))) '''')
                # map (\<lambda>(child, number).
                         Stdout (emit ''INTEGER'' (level + 1) (of_nat (length (obj_value child)))
                                      (INTEGER_display (BigInt_encode lib) number)))
                      children
                @ out, exc))
   \<and> ((\<exists>obj' decoder''. get_next_object lib decoder' = Inr (obj', decoder'') \<and>
                          type_tag obj' = NO_OBJECT) \<longrightarrow>
       (\<exists>lines. decode lib decoder level =
                  Some (Stdout (emit ''SEQUENCE'' level (of_nat (length (obj_value obj))) '''')
                        # lines, None) \<and>
                length lines = length children \<and>
                (\<forall>i < length children.
                   lines ! i =
                     Stdout (emit ''INTEGER'' (level + 1)
                               (of_nat (length (obj_value (fst (children ! i)))))
                               (INTEGER_display (BigInt_encode lib) (snd (children ! i)))))))"
proof -
  let ?leaves = "map (\<lambda>(child, number).
                         Stdout (emit ''INTEGER'' (level + 1) (of_nat (length (obj_value child)))
                                      (INTEGER_display (BigInt_encode lib) number)))
                      children"
  from assms(2) have t: "type_tag obj \<noteq> NO_OBJECT" by (simp add: tag_defs)
  from assms(4) have inner: "decode lib (obj_value obj) (level + 1) = Some (?leaves, None)"
    by (rule INTEGER_children_lines)
  have step: "decode lib decoder level =
     Option.bind (decode lib decoder' level)
       (\<lambda>(out, exc).
          Some (Stdout (emit ''SEQUENCE'' level (of_nat (length (obj_value obj))) '''')
                # ?leaves @ out, exc))"
    unfolding decode_constructed [OF assms(1) t assms(3)] inner
    by (simp add: assms(2) Let_def)
  have closed: "\<exists>lines. decode lib decoder level =
                  Some (Stdout (emit ''SEQUENCE'' level (of_nat (length (obj_value obj))) '''')
                        # lines, None) \<and>
                length lines = length children \<and>
                (\<forall>i < length children.
                   lines ! i =
                     Stdout (emit ''INTEGER'' (level + 1)
                               (of_nat (length (obj_value (fst (children ! i)))))
                               (INTEGER_display (BigInt_encode lib) (snd (children ! i)))))"
    if "\<exists>obj' decoder''. get_next_object lib decoder' = Inr (obj', decoder'') \<and>
                          type_tag obj' = NO_OBJECT"
  proof -
    from that obtain obj' decoder'' where
      "get_next_object lib decoder' = Inr (obj', decoder'')" "type_tag obj' = NO_OBJECT"
      by blast
    then have "decode lib decoder' level = Some ([], None)" by (rule decode_at_end)
    then have "decode lib decoder level =
        Some (Stdout (emit ''SEQUENCE'' level (of_nat (length (obj_value obj))) '''')
              # ?leaves, None)"
      unfolding step by simp
    moreover have "length ?leaves = length children" by simp
    moreover have "\<forall>i < length children.
                   ?leaves ! i =
                     Stdout (emit ''INTEGER'' (level + 1)
                               (of_nat (length (obj_value (fst (children ! i)))))
                               (INTEGER_display (BigInt_encode lib) (snd (children ! i))))"
      by (simp add: case_prod_beta)
    ultimately show ?thesis by blast
  qed
  from step closed show ?thesis by blast
qed

lemma sample_scan_seq:
  "get_next_object sample_library [0x30, 0x06, 0x02, 0x01, 0x05, 0x02, 0x01, 0x07] =
     Inr (\<lparr>type_tag = SEQUENCE, class_tag = CONSTRUCTED,
           obj_value = [0x02, 0x01, 0x05, 0x02, 0x01, 0x07]\<rparr>, [])"
  by (simp add: sample_library_def sample_scan_def tag_defs)

lemma sample_children:
  "INTEGER_children sample_library [0x02, 0x01, 0x05, 0x02, 0x01, 0x07]
     [(\<lparr>type_tag = INTEGER, class_tag = UNIVERSAL, obj_value = [0x05]\<rparr>, 5),
      (\<lparr>type_tag = INTEGER, class_tag = UNIVERSAL, obj_value = [0x07]\<rparr>, 7)]"
  using sample_scan_INTEGER [of 1 "[0x05, 0x02, 0x01, 0x07]"] sample_scan_INTEGER [of 1 "[0x07]"]
    sample_decode_one_byte [of 5] sample_decode_one_byte [of 7] sample_scan_empty
  by (simp add: NO_OBJECT_def)

lemma sample_decode_seq:
  "decode sample_library [0x30, 0x06, 0x02, 0x01, 0x05, 0x02, 0x01, 0x07] 0 =
     Some ([Stdout (emit ''SEQUENCE'' 0 6 ''''), Stdout (emit ''INTEGER'' 1 1 ''5''),
            Stdout (emit ''INTEGER'' 1 1 ''7'')], None)"
proof -
  let ?obj = "\<lparr>type_tag = SEQUENCE, class_tag = CONSTRUCTED,
           obj_value = [0x02, 0x01, 0x05, 0x02, 0x01, 0x07]\<rparr>"
  have t: "type_tag ?obj \<noteq> NO_OBJECT" by (simp add: tag_defs)
  have c: "class_tag ?obj AND CONSTRUCTED \<noteq> 0" by (simp add: tag_defs)
  have rest: "decode sample_library [] 0 = Some ([], None)"
    by (rule decode_at_end [OF sample_scan_empty]) simp
  have inner: "decode sample_library (obj_value ?obj) (0 + 1) =
      Some ([Stdout (emit ''INTEGER'' 1 1 ''5''), Stdout (emit ''INTEGER'' 1 1 ''7'')], None)"
    using INTEGER_children_lines [OF sample_children, of 1]
    by (simp add: sample_shows_decimal dec_digits.simps)
  show ?thesis
    unfolding decode_constructed [OF sample_scan_seq t c, of 0] inner rest
    by simp
qed

theorem SEQUENCE_of_INTEGERs_witness:
  "get_next_object sample_library [0x30, 0x06, 0x02, 0x01, 0x05, 0x02, 0x01, 0x07] =
     Inr (\<lparr>type_tag = SEQUENCE, class_tag = CONSTRUCTED,
           obj_value = [0x02, 0x01, 0x05, 0x02, 0x01, 0x07]\<rparr>, [])
   \<and> CONSTRUCTED AND CONSTRUCTED \<noteq> 0
   \<and> INTEGER_children sample_library [0x02, 0x01, 0x05, 0x02, 0x01, 0x07]
        [(\<lparr>type_tag = INTEGER, class_tag = UNIVERSAL, obj_value = [0x05]\<rparr>, 5),
         (\<lparr>type_tag = INTEGER, class_tag = UNIVERSAL, obj_value = [0x07]\<rparr>, 7)]
   \<and> get_next_object sample_library [] =
        Inr (\<lparr>type_tag = NO_OBJECT, class_tag = NO_OBJECT, obj_value = []\<rparr>, [])
   \<and> decode sample_library [0x30, 0x06, 0x02, 0x01, 0x05, 0x02, 0x01, 0x07] 0 =
        Some ([Stdout (emit ''SEQUENCE'' 0 6 ''''), Stdout (emit ''INTEGER'' 1 1 ''5''),
               Stdout (emit ''INTEGER'' 1 1 ''7'')], None)"
proof -
  let ?obj = "\<lparr>type_tag = SEQUENCE, class_tag = CONSTRUCTED,
           obj_value = [0x02, 0x01, 0x05, 0x02, 0x01, 0x07]\<rparr>"
  have ty: "type_tag ?obj = SEQUENCE" by simp
  have cc: "CONSTRUCTED AND CONSTRUCTED \<noteq> 0" by (simp add: tag_defs)
  then have c: "class_tag ?obj AND CONSTRUCTED \<noteq> 0" by simp
  have ch: "INTEGER_children sample_library (obj_value ?obj)
        [(\<lparr>type_tag = INTEGER, class_tag = UNIVERSAL, obj_value = [0x05]\<rparr>, 5),
         (\<lparr>type_tag = INTEGER, class_tag = UNIVERSAL, obj_value = [0x07]\<rparr>, 7)]"
    using sample_children by simp
  have rest: "decode sample_library [] 0 = Some ([], None)"
    by (rule decode_at_end [OF sample_scan_empty]) simp
  have r: "decode sample_library [0x30, 0x06, 0x02, 0x01, 0x05, 0x02, 0x01, 0x07] 0 =
        Some ([Stdout (emit ''SEQUENCE'' 0 6 ''''), Stdout (emit ''INTEGER'' 1 1 ''5''),
               Stdout (emit ''INTEGER'' 1 1 ''7'')], None)"
    unfolding SEQUENCE_of_INTEGERs [OF sample_scan_seq ty c ch, of 0, THEN conjunct1] rest
    by (simp add: sample_shows_decimal dec_digits.simps)
  from sample_scan_seq cc sample_children sample_scan_empty r show ?thesis by (intro conjI)
qed

section \<open>Exit codes\<close>

lemma main_usage:
  "length args \<noteq> 1 \<Longrightarrow>
   main lib argv0 args = Some (1, [Stdout (''Usage: '' @ argv0 @ '' <file>'' @ newline)])"
  by (simp add: main_def)

lemma main_open_fails:
  "DataSource_Stream lib path = Inl e \<Longrightarrow>
   main lib argv0 [path] = Some (1, [Stdout (what e @ newline)])"
  by (simp add: main_def main_finish_def)

lemma main_PEM_fails:
  "DataSource_Stream lib path = Inr inp \<Longrightarrow> PEM_matches lib inp \<Longrightarrow>
   PEM_decode lib inp = Inl e \<Longrightarrow>
   main lib argv0 [path] = Some (1, [Stdout (what e @ newline)])"
  by (simp add: main_def main_finish_def)

lemma main_decoded:
  assumes "DataSource_Stream lib path = Inr inp"
    and "(\<not> PEM_matches lib inp \<and> ber = inp) \<or> (PEM_matches lib inp \<and> PEM_decode lib inp = Inr ber)"
    and "decode lib ber INITIAL_LEVEL = Some r"
  shows "main lib argv0 [path] = Some (main_finish r)"
  using assms by (auto simp: main_one_file main_one_PEM_file)

lemma decode_leaf_throws:
  assumes "get_next_object lib decoder = Inr (obj, decoder')"
    and "type_tag obj \<noteq> NO_OBJECT"
    and "class_tag obj AND CONSTRUCTED = 0"
    and "decode_leaf lib (type_tag obj) (class_tag obj) (of_nat (length (obj_value obj)))
           (add_object lib (type_tag obj) (class_tag obj) (obj_value obj)) level = Inl e"
  shows "decode lib decoder level = Some ([], Some e)"
  unfolding decode_primitive [OF assms(1,2,3)] assms(4) by simp

lemma decode_nested_throws:
  assumes "get_next_object lib decoder = Inr (obj, decoder')"
    and "type_tag obj \<noteq> NO_OBJECT"
    and "class_tag obj AND CONSTRUCTED \<noteq> 0"
    and "decode lib (obj_value obj) (level + 1) = Some (inner, Some e)"
  shows "\<exists>line. decode lib decoder level = Some (line # inner, Some e)"
  unfolding decode_constructed [OF assms(1,2,3)] assms(4) by (simp add: Let_def)

lemma decode_sibling_throws:
  assumes "get_next_object lib decoder = Inr (obj, decoder')"
    and "type_tag obj \<noteq> NO_OBJECT"
    and "(class_tag obj AND CONSTRUCTED \<noteq> 0 \<and>
          (\<exists>inner. decode lib (obj_value obj) (level + 1) = Some (inner, None))) \<or>
         (class_tag obj AND CONSTRUCTED = 0 \<and>
          (\<exists>line. decode_leaf lib (type_tag obj) (class_tag obj)
                     (of_nat (length (obj_value obj)))
                     (add_object lib (type_tag obj) (class_tag obj) (obj_value obj)) level
                   = Inr line))"
    and "decode lib decoder' level = Some (out', Some e)"
  shows "\<exists>out. decode lib decoder level = Some (out @ out', Some e)"
  using assms(3)
proof (elim disjE conjE exE)
  fix inner
  assume c: "class_tag obj AND CONSTRUCTED \<noteq> 0"
    and i: "decode lib (obj_value obj) (level + 1) = Some (inner, None)"
  let ?line = "Stdout (emit (if type_tag obj = SEQUENCE then ''SEQUENCE''
                                   else if type_tag obj = SET then ''SET''
                                   else cons_name (type_tag obj) (class_tag obj))
                                  level (of_nat (length (obj_value obj))) '''')"
  have "decode lib decoder level = Some ((?line # inner) @ out', Some e)"
    unfolding decode_constructed [OF assms(1,2) c] i assms(4) by (simp add: Let_def)
  then show ?thesis by blast
next
  fix line
  assume c: "class_tag obj AND CONSTRUCTED = 0"
    and l: "decode_leaf lib (type_tag obj) (class_tag obj)
                     (of_nat (length (obj_value obj)))
                     (add_object lib (type_tag obj) (class_tag obj) (obj_value obj)) level
                   = Inr line"
  have "decode lib decoder level = Some ([line] @ out', Some e)"
    unfolding decode_primitive [OF assms(1,2) c] l assms(4) by simp
  then show ?thesis by blast
qed

text \<open>
  Claim C8. \<open>main\<close> returns 1 and prints the usage line when it is not given exactly one
  argument. With one argument it returns 0 when \<open>decode\<close> comes back without an
  exception, and 1 when an exception was thrown while the file was opened, while the PEM
  armour was removed or inside \<open>decode\<close>; the text of the exception and a newline are
  then the last thing printed. An exception reaches \<open>main\<close> from any depth: one thrown
  by the scanner or by a value decoder ends the call of \<open>decode\<close> it occurs in, and a call
  that a nested call or a later object ends with an exception ends with the same
  exception.
\<close>

theorem exit_codes:
  "(length args \<noteq> 1 \<longrightarrow>
      main lib argv0 args = Some (1, [Stdout (''Usage: '' @ argv0 @ '' <file>'' @ newline)]))
   \<and> (DataSource_Stream lib path = Inl e \<longrightarrow>
        main lib argv0 [path] = Some (1, [Stdout (what e @ newline)]))
   \<and> (DataSource_Stream lib path = Inr inp \<and> PEM_matches lib inp \<and>
        PEM_decode lib inp = Inl e \<longrightarrow>
        main lib argv0 [path] = Some (1, [Stdout (what e @ newline)]))
   \<and> (DataSource_Stream lib path = Inr inp \<and>
        ((\<not> PEM_matches lib inp \<and> ber = inp) \<or>
         (PEM_matches lib inp \<and> PEM_decode lib inp = Inr ber)) \<longrightarrow>
        (decode lib ber INITIAL_LEVEL = Some (out, None) \<longrightarrow>
           main lib argv0 [path] = Some (0, out)) \<and>
        (decode lib ber INITIAL_LEVEL = Some (out, Some e) \<longrightarrow>
           main lib argv0 [path] = Some (1, out @ [Stdout (what e @ newline)])))
   \<and> (get_next_object lib decoder = Inl e \<longrightarrow> decode lib decoder level = Some ([], Some e))
   \<and> (get_next_object lib decoder = Inr (obj, decoder') \<and> type_tag obj \<noteq> NO_OBJECT \<longrightarrow>
        (class_tag obj AND CONSTRUCTED = 0 \<and>
         decode_leaf lib (type_tag obj) (class_tag obj) (of_nat (length (obj_value obj)))
           (add_object lib (type_tag obj) (class_tag obj) (obj_value obj)) level = Inl e \<longrightarrow>
         decode lib decoder level = Some ([], Some e)) \<and>
        (class_tag obj AND CONSTRUCTED \<noteq> 0 \<and>
         decode lib (obj_value obj) (level + 1) = Some (inner, Some e) \<longrightarrow>
         (\<exists>line. decode lib decoder level = Some (line # inner, Some e))) \<and>
        (((class_tag obj AND CONSTRUCTED \<noteq> 0 \<and>
           (\<exists>inner. decode lib (obj_value obj) (level + 1) = Some (inner, None))) \<or>
          (class_tag obj AND CONSTRUCTED = 0 \<and>
           (\<exists>line. decode_leaf lib (type_tag obj) (class_tag obj)
                      (of_nat (length (obj_value obj)))
                      (add_object lib (type_tag obj) (class_tag obj) (obj_value obj)) level
                    = Inr line))) \<and>
         decode lib decoder' level = Some (out', Some e) \<longrightarrow>
         (\<exists>out. decode lib decoder level = Some (out @ out', Some e))))"
proof (intro conjI impI; (elim conjE)?)
  assume "length args \<noteq> 1"
  then show "main lib argv0 args = Some (1, [Stdout (''Usage: '' @ argv0 @ '' <file>'' @ newline)])"
    by (rule main_usage)
next
  assume "DataSource_Stream lib path = Inl e"
  then show "main lib argv0 [path] = Some (1, [Stdout (what e @ newline)])"
    by (rule main_open_fails)
next
  assume "DataSource_Stream lib path = Inr inp" "PEM_matches lib inp" "PEM_decode lib inp = Inl e"
  then show "main lib argv0 [path] = Some (1, [Stdout (what e @ newline)])"
    by (rule main_PEM_fails)
next
  assume "DataSource_Stream lib path = Inr inp"
    "(\<not> PEM_matches lib inp \<and> ber = inp) \<or> (PEM_matches lib inp \<and> PEM_decode lib inp = Inr ber)"
    "decode lib ber INITIAL_LEVEL = Some (out, None)"
  then have "main lib argv0 [path] = Some (main_finish (out, None))" by (rule main_decoded)
  then show "main lib argv0 [path] = Some (0, out)" by (simp add: main_finish_def)
next
  assume "DataSource_Stream lib path = Inr inp"
    "(\<not> PEM_matches lib inp \<and> ber = inp) \<or> (PEM_matches lib inp \<and> PEM_decode lib inp = Inr ber)"
    "decode lib ber INITIAL_LEVEL = Some (out, Some e)"
  then have "main lib argv0 [path] = Some (main_finish (out, Some e))" by (rule main_decoded)
  then show "main lib argv0 [path] = Some (1, out @ [Stdout (what e @ newline)])"
    by (simp add: main_finish_def)
next
  assume "get_next_object lib decoder = Inl e"
  then show "decode lib decoder level = Some ([], Some e)" by (rule decode_scanner_throws)
next
  assume "get_next_object lib decoder = Inr (obj, decoder')" "type_tag obj \<noteq> NO_OBJECT"
    "class_tag obj AND CONSTRUCTED = 0"
    "decode_leaf lib (type_tag obj) (class_tag obj) (of_nat (length (obj_value obj)))
           (add_object lib (type_tag obj) (class_tag obj) (obj_value obj)) level = Inl e"
  then show "decode lib decoder level = Some ([], Some e)" by (rule decode_leaf_throws)
next
  assume "get_next_object lib decoder = Inr (obj, decoder')" "type_tag obj \<noteq> NO_OBJECT"
    "class_tag obj AND CONSTRUCTED \<noteq> 0"
    "decode lib (obj_value obj) (level + 1) = Some (inner, Some e)"
  then show "\<exists>line. decode lib decoder level = Some (line # inner, Some e)"
    by (rule decode_nested_throws)
next
  assume "get_next_object lib decoder = Inr (obj, decoder')" "type_tag obj \<noteq> NO_OBJECT"
    "(class_tag obj AND CONSTRUCTED \<noteq> 0 \<and>
           (\<exists>inner. decode lib (obj_value obj) (level + 1) = Some (inner, None))) \<or>
          (class_tag obj AND CONSTRUCTED = 0 \<and>
           (\<exists>line. decode_leaf lib (type_tag obj) (class_tag obj)
                      (of_nat (length (obj_value obj)))
                      (add_object lib (type_tag obj) (class_tag obj) (obj_value obj)) level
                    = Inr line))"
    "decode lib decoder' level = Some (out', Some e)"
  then show "\<exists>out. decode lib decoder level = Some (out @ out', Some e)"
    by (rule decode_sibling_throws)
qed

lemma sample_truncated:
  "get_next_object sample_library [0x02, 0x05, 0x01] = Inl (Exception ''BER: Value truncated'')"
  by (simp add: sample_library_def sample_scan_def)

lemma sample_scan_short:
  "get_next_object sample_library [0x30, 0x03, 0x02, 0x05, 0x01] =
     Inr (\<lparr>type_tag = SEQUENCE, class_tag = CONSTRUCTED, obj_value = [0x02, 0x05, 0x01]\<rparr>, [])"
  by (simp add: sample_library_def sample_scan_def tag_defs)

lemma sample_decode_short:
  "decode sample_library [0x30, 0x03, 0x02, 0x05, 0x01] 0 =
     Some ([Stdout (emit ''SEQUENCE'' 0 3 '''')], Some (Exception ''BER: Value truncated''))"
proof -
  let ?obj = "\<lparr>type_tag = SEQUENCE, class_tag = CONSTRUCTED, obj_value = [0x02, 0x05, 0x01]\<rparr>"
  have t: "type_tag ?obj \<noteq> NO_OBJECT" by (simp add: tag_defs)
  have c: "class_tag ?obj AND CONSTRUCTED \<noteq> 0" by (simp add: tag_defs)
  have inner: "decode sample_library (obj_value ?obj) (0 + 1) =
      Some ([], Some (Exception ''BER: Value truncated''))"
    using decode_scanner_throws [OF sample_truncated, of 1] by simp
  show ?thesis
    unfolding decode_constructed [OF sample_scan_short t c, of 0] inner by simp
qed

lemma sample_scan_BOOLEAN:
  "get_next_object sample_library [0x01, 0x02, 0x00, 0x00] =
     Inr (\<lparr>type_tag = BOOLEAN, class_tag = UNIVERSAL, obj_value = [0x00, 0x00]\<rparr>, [])"
  by (simp add: sample_library_def sample_scan_def tag_defs)

lemma sample_bad_BOOLEAN:
  "decode_leaf sample_library BOOLEAN UNIVERSAL 2
     (add_object sample_library BOOLEAN UNIVERSAL [0x00, 0x00]) 0 =
   Inl (Exception ''BER: Invalid BOOLEAN'')"
  by (simp add: decode_leaf_def sample_library_def sample_add_object_def sample_value_def
        sample_scan_def tag_defs)

lemma sample_scan_two:
  "get_next_object sample_library [0x02, 0x01, 0x07, 0x02, 0x05, 0x01] =
     Inr (\<lparr>type_tag = INTEGER, class_tag = UNIVERSAL, obj_value = [0x07]\<rparr>, [0x02, 0x05, 0x01])"
  using sample_scan_INTEGER [of 1 "[0x07, 0x02, 0x05, 0x01]"] by simp

lemma sample_leaf_7:
  "decode_leaf sample_library INTEGER UNIVERSAL 1
     (add_object sample_library INTEGER UNIVERSAL [0x07]) 0 =
   Inr (Stdout (emit ''INTEGER'' 0 1 ''7''))"
proof -
  have d: "decode_BigInt sample_library (add_object sample_library INTEGER UNIVERSAL [0x07]) = Inr 7"
    using sample_decode_one_byte [of 7] by simp
  show ?thesis
    by (simp add: leaf_INTEGER [OF d] sample_shows_decimal dec_digits.simps)
qed

lemma sample_files:
  "DataSource_Stream sample_library ''missing.der'' =
     Inl (Exception ''DataSource: Failure opening file'')"
  "DataSource_Stream sample_library ''broken.pem'' = Inr [0x2D, 0x2D, 0x2D, 0x2D, 0x2D]"
  "DataSource_Stream sample_library ''seq.der'' =
     Inr [0x30, 0x06, 0x02, 0x01, 0x05, 0x02, 0x01, 0x07]"
  "DataSource_Stream sample_library ''armoured.pem'' =
     Inr [0x2D, 0x2D, 0x2D, 0x2D, 0x2D, 0x02, 0x01, 0x07]"
  "DataSource_Stream sample_library ''short.der'' = Inr [0x30, 0x03, 0x02, 0x05, 0x01]"
  by (simp_all add: sample_library_def)

lemma sample_PEM:
  "PEM_matches sample_library [0x2D, 0x2D, 0x2D, 0x2D, 0x2D]"
  "PEM_decode sample_library [0x2D, 0x2D, 0x2D, 0x2D, 0x2D] =
     Inl (Exception ''PEM: No PEM header found'')"
  "PEM_matches sample_library [0x2D, 0x2D, 0x2D, 0x2D, 0x2D, 0x02, 0x01, 0x07]"
  "PEM_decode sample_library [0x2D, 0x2D, 0x2D, 0x2D, 0x2D, 0x02, 0x01, 0x07] =
     Inr [0x02, 0x01, 0x07]"
  "\<not> PEM_matches sample_library [0x30, 0x06, 0x02, 0x01, 0x05, 0x02, 0x01, 0x07]"
  "\<not> PEM_matches sample_library [0x30, 0x03, 0x02, 0x05, 0x01]"
  by (simp_all add: sample_library_def)

theorem exit_codes_witness:
  "main sample_library ''asn1'' [] = Some (1, [Stdout (''Usage: asn1 <file>'' @ newline)])
   \<and> main sample_library ''asn1'' [''missing.der''] =
       Some (1, [Stdout (''DataSource: Failure opening file'' @ newline)])
   \<and> main sample_library ''asn1'' [''broken.pem''] =
       Some (1, [Stdout (''PEM: No PEM header found'' @ newline)])
   \<and> main sample_library ''asn1'' [''seq.der''] =
       Some (0, [Stdout (emit ''SEQUENCE'' 0 6 ''''), Stdout (emit ''INTEGER'' 1 1 ''5''),
                 Stdout (emit ''INTEGER'' 1 1 ''7'')])
   \<and> main sample_library ''asn1'' [''armoured.pem''] =
       Some (0, [Stdout (emit ''INTEGER'' 0 1 ''7'')])
   \<and> main sample_library ''asn1'' [''short.der''] =
       Some (1, [Stdout (emit ''SEQUENCE'' 0 3 ''''),
                 Stdout (''BER: Value truncated'' @ newline)])
   \<and> decode sample_library [0x02, 0x05, 0x01] 1 =
       Some ([], Some (Exception ''BER: Value truncated''))
   \<and> (\<exists>line. decode sample_library [0x30, 0x03, 0x02, 0x05, 0x01] 0 =
                Some ([line], Some (Exception ''BER: Value truncated'')))
   \<and> decode sample_library [0x01, 0x02, 0x00, 0x00] 0 =
       Some ([], Some (Exception ''BER: Invalid BOOLEAN''))
   \<and> (\<exists>out. decode sample_library [0x02, 0x01, 0x07, 0x02, 0x05, 0x01] 0 =
               Some (out, Some (Exception ''BER: Value truncated'')))"
proof -
  let ?trunc = "Exception ''BER: Value truncated''"
  have w1: "main sample_library ''asn1'' [] =
      Some (1, [Stdout (''Usage: asn1 <file>'' @ newline)])"
    using exit_codes [where lib = sample_library and args = "[]" and ?argv0.0 = "''asn1''",
        THEN conjunct1]
    by simp
  have w2: "main sample_library ''asn1'' [''missing.der''] =
       Some (1, [Stdout (''DataSource: Failure opening file'' @ newline)])"
    using exit_codes [where lib = sample_library and path = "''missing.der''"
        and e = "Exception ''DataSource: Failure opening file''" and ?argv0.0 = "''asn1''",
        THEN conjunct2, THEN conjunct1]
    by (simp add: sample_files)
  have w3: "main sample_library ''asn1'' [''broken.pem''] =
       Some (1, [Stdout (''PEM: No PEM header found'' @ newline)])"
    using exit_codes [where lib = sample_library and path = "''broken.pem''"
        and inp = "[0x2D, 0x2D, 0x2D, 0x2D, 0x2D]"
        and e = "Exception ''PEM: No PEM header found''" and ?argv0.0 = "''asn1''",
        THEN conjunct2, THEN conjunct2, THEN conjunct1]
    by (simp add: sample_files sample_PEM)
  have w4: "main sample_library ''asn1'' [''seq.der''] =
       Some (0, [Stdout (emit ''SEQUENCE'' 0 6 ''''), Stdout (emit ''INTEGER'' 1 1 ''5''),
                 Stdout (emit ''INTEGER'' 1 1 ''7'')])"
    using exit_codes [where lib = sample_library and path = "''seq.der''"
        and inp = "[0x30, 0x06, 0x02, 0x01, 0x05, 0x02, 0x01, 0x07]"
        and ber = "[0x30, 0x06, 0x02, 0x01, 0x05, 0x02, 0x01, 0x07]"
        and out = "[Stdout (emit ''SEQUENCE'' 0 6 ''''), Stdout (emit ''INTEGER'' 1 1 ''5''),
                    Stdout (emit ''INTEGER'' 1 1 ''7'')]"
        and ?argv0.0 = "''asn1''",
        THEN conjunct2, THEN conjunct2, THEN conjunct2, THEN conjunct1]
    by (simp add: sample_files sample_PEM sample_decode_seq INITIAL_LEVEL_def)
  have w5: "main sample_library ''asn1'' [''armoured.pem''] =
       Some (0, [Stdout (emit ''INTEGER'' 0 1 ''7'')])"
    using exit_codes [where lib = sample_library and path = "''armoured.pem''"
        and inp = "[0x2D, 0x2D, 0x2D, 0x2D, 0x2D, 0x02, 0x01, 0x07]"
        and ber = "[0x02, 0x01, 0x07]"
        and out = "[Stdout (emit ''INTEGER'' 0 1 ''7'')]"
        and ?argv0.0 = "''asn1''",
        THEN conjunct2, THEN conjunct2, THEN conjunct2, THEN conjunct1]
    by (simp add: sample_files sample_PEM sample_decode_INTEGER_7 INITIAL_LEVEL_def)
  have w6: "main sample_library ''asn1'' [''short.der''] =
       Some (1, [Stdout (emit ''SEQUENCE'' 0 3 ''''),
                 Stdout (''BER: Value truncated'' @ newline)])"
    using exit_codes [where lib = sample_library and path = "''short.der''"
        and inp = "[0x30, 0x03, 0x02, 0x05, 0x01]"
        and ber = "[0x30, 0x03, 0x02, 0x05, 0x01]"
        and out = "[Stdout (emit ''SEQUENCE'' 0 3 '''')]"
        and e = ?trunc and ?argv0.0 = "''asn1''",
        THEN conjunct2, THEN conjunct2, THEN conjunct2, THEN conjunct1]
    by (simp add: sample_files sample_PEM sample_decode_short INITIAL_LEVEL_def)
  have w7: "decode sample_library [0x02, 0x05, 0x01] 1 = Some ([], Some ?trunc)"
    using exit_codes [where lib = sample_library and decoder = "[0x02, 0x05, 0x01]"
        and e = ?trunc and level = 1,
        THEN conjunct2, THEN conjunct2, THEN conjunct2, THEN conjunct2, THEN conjunct1]
    by (simp add: sample_truncated)
  have w8: "\<exists>line. decode sample_library [0x30, 0x03, 0x02, 0x05, 0x01] 0 =
                Some ([line], Some ?trunc)"
    using exit_codes [where lib = sample_library
        and decoder = "[0x30, 0x03, 0x02, 0x05, 0x01]"
        and obj = "\<lparr>type_tag = SEQUENCE, class_tag = CONSTRUCTED,
                     obj_value = [0x02, 0x05, 0x01]\<rparr>"
        and decoder' = "[]" and inner = "[]" and e = ?trunc and level = 0,
        THEN conjunct2, THEN conjunct2, THEN conjunct2, THEN conjunct2, THEN conjunct2]
    by (simp add: sample_scan_short w7 tag_defs)
  have w9: "decode sample_library [0x01, 0x02, 0x00, 0x00] 0 =
       Some ([], Some (Exception ''BER: Invalid BOOLEAN''))"
    using exit_codes [where lib = sample_library
        and decoder = "[0x01, 0x02, 0x00, 0x00]"
        and obj = "\<lparr>type_tag = BOOLEAN, class_tag = UNIVERSAL, obj_value = [0x00, 0x00]\<rparr>"
        and decoder' = "[]" and e = "Exception ''BER: Invalid BOOLEAN''" and level = 0,
        THEN conjunct2, THEN conjunct2, THEN conjunct2, THEN conjunct2, THEN conjunct2]
      sample_bad_BOOLEAN
    by (simp add: sample_scan_BOOLEAN tag_defs)
  have w10: "\<exists>out. decode sample_library [0x02, 0x01, 0x07, 0x02, 0x05, 0x01] 0 =
               Some (out, Some ?trunc)"
    using exit_codes [where lib = sample_library
        and decoder = "[0x02, 0x01, 0x07, 0x02, 0x05, 0x01]"
        and obj = "\<lparr>type_tag = INTEGER, class_tag = UNIVERSAL, obj_value = [0x07]\<rparr>"
        and decoder' = "[0x02, 0x05, 0x01]" and out' = "[]" and e = ?trunc and level = 0,
        THEN conjunct2, THEN conjunct2, THEN conjunct2, THEN conjunct2, THEN conjunct2]
      sample_leaf_7 decode_scanner_throws [OF sample_truncated, of 0]
    by (simp add: sample_scan_two tag_defs)
  from w1 w2 w3 w4 w5 w6 w7 w8 w9 w10 show ?thesis by (intro conjI)
qed

end
